theory Spec2Isabelle
  imports Main
begin

section \<open>JavaScript values, objects and strings\<close>

text \<open>
  The triage code is TypeScript working on plain JSON-like objects
  (\<^verbatim>\<open>Record<string, any>\<close>, \<^verbatim>\<open>ChatState\<close> with its index signature).
  A value is one of the primitive JavaScript values; numbers are modelled as
  integers (every number the state machine writes is an integer parsed from a
  digit run or a counter; a fractional number in a reply of the extraction call
  is outside the model). An object is a finite map from property names to
  values; a missing property reads as \<^verbatim>\<open>undefined\<close>.
  Strings are ASCII character lists: \<^verbatim>\<open>toLowerCase\<close> and \<^verbatim>\<open>trim\<close>
  act on ASCII letters and ASCII white space, \<^verbatim>\<open>length\<close> counts characters.
\<close>

datatype jsval = JUndefined | JNull | JBool bool | JNum int | JStr string

type_synonym jsobj = "string \<rightharpoonup> jsval"

definition jsget :: "jsobj \<Rightarrow> string \<Rightarrow> jsval" where
  "jsget obj k = (case obj k of None \<Rightarrow> JUndefined | Some v \<Rightarrow> v)"

fun truthy :: "jsval \<Rightarrow> bool" where
  "truthy JUndefined = False"
| "truthy JNull = False"
| "truthy (JBool b) = b"
| "truthy (JNum n) = (n \<noteq> 0)"
| "truthy (JStr s) = (s \<noteq> [])"

fun nullish :: "jsval \<Rightarrow> bool" where
  "nullish JUndefined = True"
| "nullish JNull = True"
| "nullish v = False"

definition js_or :: "jsval \<Rightarrow> jsval \<Rightarrow> jsval" where
  "js_or a b = (if truthy a then a else b)"

definition js_coalesce :: "jsval \<Rightarrow> jsval \<Rightarrow> jsval" where
  "js_coalesce a b = (if nullish a then b else a)"

text \<open>
  \<^verbatim>\<open>ToNumber\<close> for a relational operator; \<open>None\<close> is NaN, which makes every
  comparison false. The code compares only fields declared \<^verbatim>\<open>number\<close>; a string
  operand is outside those types and is read as NaN here.
\<close>

fun toNumber :: "jsval \<Rightarrow> int option" where
  "toNumber JUndefined = None"
| "toNumber JNull = Some 0"
| "toNumber (JBool b) = Some (if b then 1 else 0)"
| "toNumber (JNum n) = Some n"
| "toNumber (JStr s) = None"

definition js_ge :: "jsval \<Rightarrow> jsval \<Rightarrow> bool" where
  "js_ge a b = (case (toNumber a, toNumber b) of (Some x, Some y) \<Rightarrow> y \<le> x | _ \<Rightarrow> False)"

definition js_gt :: "jsval \<Rightarrow> jsval \<Rightarrow> bool" where
  "js_gt a b = (case (toNumber a, toNumber b) of (Some x, Some y) \<Rightarrow> y < x | _ \<Rightarrow> False)"

definition js_le :: "jsval \<Rightarrow> jsval \<Rightarrow> bool" where
  "js_le a b = (case (toNumber a, toNumber b) of (Some x, Some y) \<Rightarrow> x \<le> y | _ \<Rightarrow> False)"

definition js_lt :: "jsval \<Rightarrow> jsval \<Rightarrow> bool" where
  "js_lt a b = (case (toNumber a, toNumber b) of (Some x, Some y) \<Rightarrow> x < y | _ \<Rightarrow> False)"

subsection \<open>String operations\<close>

definition is_upper :: "char \<Rightarrow> bool" where
  "is_upper c = (65 \<le> (of_char c :: nat) \<and> (of_char c :: nat) \<le> 90)"

text \<open>An upper-case ASCII letter becomes lower-case by setting bit 5.\<close>

fun lower_char :: "char \<Rightarrow> char" where
  "lower_char (Char b0 b1 b2 b3 b4 b5 b6 b7) =
     (if is_upper (Char b0 b1 b2 b3 b4 b5 b6 b7) then Char b0 b1 b2 b3 b4 True b6 b7
      else Char b0 b1 b2 b3 b4 b5 b6 b7)"

definition toLowerCase :: "string \<Rightarrow> string" where
  "toLowerCase s = map lower_char s"

definition is_space :: "char \<Rightarrow> bool" where
  "is_space c = ((of_char c :: nat) = 32 \<or> (9 \<le> (of_char c :: nat) \<and> (of_char c :: nat) \<le> 13))"

definition trim :: "string \<Rightarrow> string" where
  "trim s = rev (dropWhile is_space (rev (dropWhile is_space s)))"

fun startsWith :: "string \<Rightarrow> string \<Rightarrow> bool" where
  "startsWith s [] = True"
| "startsWith [] (p # ps) = False"
| "startsWith (c # cs) (p # ps) = (c = p \<and> startsWith cs ps)"

text \<open>\<^verbatim>\<open>s.includes(sub)\<close>: \<open>sub\<close> occurs in \<open>s\<close> as a contiguous substring.\<close>

fun str_includes :: "string \<Rightarrow> string \<Rightarrow> bool" where
  "str_includes [] sub = (sub = [])"
| "str_includes (c # cs) sub = (startsWith (c # cs) sub \<or> str_includes cs sub)"

fun join :: "string \<Rightarrow> string list \<Rightarrow> string" where
  "join sep [] = []"
| "join sep [x] = x"
| "join sep (x # y # ys) = x @ sep @ join sep (y # ys)"

definition is_digit :: "char \<Rightarrow> bool" where
  "is_digit c = (48 \<le> (of_char c :: nat) \<and> (of_char c :: nat) \<le> 57)"

definition digit_val :: "char \<Rightarrow> nat" where
  "digit_val c = (of_char c :: nat) - 48"

definition digit_char :: "nat \<Rightarrow> char" where
  "digit_char n = ''0123456789'' ! (n mod 10)"

text \<open>The decimal value of a run of digits, as \<^verbatim>\<open>parseInt\<close> reads it.\<close>

definition digits_to_nat :: "string \<Rightarrow> nat" where
  "digits_to_nat ds = foldl (\<lambda>acc c. 10 * acc + digit_val c) 0 ds"

function string_of_nat :: "nat \<Rightarrow> string" where
  "string_of_nat n =
     (if n < 10 then [digit_char n] else string_of_nat (n div 10) @ [digit_char n])"
  by pat_completeness auto
termination
  by (relation "measure (\<lambda>n. n)") auto

declare string_of_nat.simps [simp del]

definition string_of_int :: "int \<Rightarrow> string" where
  "string_of_int i =
     (if i < 0 then CHR ''-'' # string_of_nat (nat (- i)) else string_of_nat (nat i))"

text \<open>\<^verbatim>\<open>String(v)\<close>, also what a template literal and \<^verbatim>\<open>+\<close> with a string apply.\<close>

fun js_String :: "jsval \<Rightarrow> string" where
  "js_String JUndefined = ''undefined''"
| "js_String JNull = ''null''"
| "js_String (JBool b) = (if b then ''true'' else ''false'')"
| "js_String (JNum n) = string_of_int n"
| "js_String (JStr s) = s"

section \<open>Rules engine (rules.ts)\<close>

datatype RiskBand = Red | Amber | Green

fun band_name :: "RiskBand \<Rightarrow> string" where
  "band_name Red = ''Red''"
| "band_name Amber = ''Amber''"
| "band_name Green = ''Green''"

record TriageResult =
  riskBand :: RiskBand
  redFlags :: "string list"
  summary :: string

text \<open>
  \<^verbatim>\<open>answers.complaint?.toLowerCase() || ""\<close>. The field is declared \<^verbatim>\<open>string\<close>;
  \<^verbatim>\<open>undefined\<close> and \<^verbatim>\<open>null\<close> give the empty string through \<^verbatim>\<open>?.\<close> and
  \<^verbatim>\<open>||\<close>. A boolean or a number has no \<^verbatim>\<open>toLowerCase\<close> and lies outside the
  declared type; it is read as the empty string.
\<close>

definition complaint_lower :: "jsval \<Rightarrow> string" where
  "complaint_lower v = (case v of JStr s \<Rightarrow> toLowerCase s | _ \<Rightarrow> [])"

text \<open>
  A run of statements \<^verbatim>\<open>if (c) flags.push(s)\<close>, in their order: each pair is a condition
  and the flag pushed when it holds.
\<close>

definition push_if :: "string list \<Rightarrow> bool \<times> string \<Rightarrow> string list" where
  "push_if flags cs = (if fst cs then flags @ [snd cs] else flags)"

definition push_each :: "(bool \<times> string) list \<Rightarrow> string list \<Rightarrow> string list" where
  "push_each pushes flags = foldl push_if flags pushes"

text \<open>The blocks of \<^verbatim>\<open>evaluateTriage\<close>, named as its comments name them.\<close>

definition global_red_flags :: "jsobj \<Rightarrow> string list \<Rightarrow> string list" where
  "global_red_flags answers flags =
     push_each
       [(truthy (jsget answers ''confusion''), ''New confusion''),
        (truthy (jsget answers ''severeBleeding''), ''Severe bleeding''),
        (js_ge (jsget answers ''severity'') (JNum 9), ''Pain severity 9-10/10'')]
       flags"

definition chest_pain_rules :: "jsobj \<Rightarrow> string list \<Rightarrow> string list" where
  "chest_pain_rules answers flags =
     (if complaint_lower (jsget answers ''complaint'') = ''chest pain'' then
        push_each
          [(truthy (jsget answers ''shortnessOfBreath''), ''Chest pain + SOB''),
           (truthy (jsget answers ''radiatingPain''), ''Radiating pain''),
           (js_gt (jsget answers ''age'') (JNum 50) \<and> js_gt (jsget answers ''severity'') (JNum 5),
              ''Age > 50 with moderate chest pain''),
           (truthy (jsget answers ''cardiacHistory''), ''History of heart disease'')]
          flags
      else flags)"

definition shortness_of_breath_rules :: "jsobj \<Rightarrow> string list \<Rightarrow> string list" where
  "shortness_of_breath_rules answers flags =
     (if complaint_lower (jsget answers ''complaint'') = ''shortness of breath'' then
        push_each
          [(truthy (jsget answers ''cyanosis''), ''Cyanosis (blue lips/skin)''),
           (truthy (jsget answers ''speakingDifficulty''), ''Unable to speak full sentences'')]
          flags
      else flags)"

definition abdominal_pain_rules :: "jsobj \<Rightarrow> string list \<Rightarrow> string list" where
  "abdominal_pain_rules answers flags =
     (if complaint_lower (jsget answers ''complaint'') = ''abdominal pain'' then
        push_each
          [(truthy (jsget answers ''vomitingBlood''), ''Vomiting blood''),
           (truthy (jsget answers ''rigidAbdomen''), ''Rigid abdomen''),
           (truthy (jsget answers ''pregnancy'') \<and> truthy (jsget answers ''bleeding''),
              ''Pregnancy + bleeding'')]
          flags
      else flags)"

definition headache_rules :: "jsobj \<Rightarrow> string list \<Rightarrow> string list" where
  "headache_rules answers flags =
     (if complaint_lower (jsget answers ''complaint'') = ''headache'' then
        push_each
          [(truthy (jsget answers ''thunderclap''), ''Sudden 'thunderclap' onset''),
           (truthy (jsget answers ''neckStiffness''), ''Neck stiffness''),
           (truthy (jsget answers ''visualDisturbance''), ''Visual disturbance'')]
          flags
      else flags)"

text \<open>The flag list of \<^verbatim>\<open>evaluateTriage\<close>: empty at first, then the blocks in their order.\<close>

definition collect_flags :: "jsobj \<Rightarrow> string list" where
  "collect_flags answers =
     foldl (\<lambda>flags block. block answers flags) []
       [global_red_flags, chest_pain_rules, shortness_of_breath_rules, abdominal_pain_rules,
        headache_rules]"

text \<open>
  \<^verbatim>\<open>evaluateTriage\<close>: the flags are collected, then the band is decided and the summary
  string built.
\<close>

definition evaluateTriage :: "jsobj \<Rightarrow> TriageResult" where
  "evaluateTriage answers =
    (let severity = jsget answers ''severity'';
         age = jsget answers ''age'';
         complaint = complaint_lower (jsget answers ''complaint'');
         flags = collect_flags answers;
         band = (if length flags > 0 then Red
                 else if js_ge severity (JNum 6) \<or> js_gt age (JNum 75) then Amber
                 else Green);
         summary = js_String age @ ''y '' @ js_String (jsget answers ''sex'')
                   @ '' presenting with '' @ complaint
                   @ '' (Severity '' @ js_String severity @ ''/10). Risk: '' @ band_name band
                   @ ''. Flags: '' @ (if length flags > 0 then join '', '' flags else ''None'') @ ''.''
     in \<lparr> riskBand = band, redFlags = flags, summary = summary \<rparr>)"

section \<open>Red-flag evaluator (handoff.ts)\<close>

record Criterion =
  c_fact :: string
  c_op :: string
  c_value :: jsval

record RedFlagRule =
  code :: string
  label :: string
  evidence_prompt :: string
  criteria_all :: "Criterion list option"
  criteria_any :: "Criterion list option"

record TriggeredFlag =
  t_code :: string
  t_label :: string
  t_evidence :: string

record RedFlagResult =
  triggered :: "TriggeredFlag list"
  notTriggered :: "string list"
  notAssessed :: "string list"

fun is_number :: "jsval \<Rightarrow> bool" where
  "is_number (JNum n) = True"
| "is_number v = False"

definition eval_criterion :: "jsobj \<Rightarrow> Criterion \<Rightarrow> bool" where
  "eval_criterion facts criterion =
    (let factValue = jsget facts (c_fact criterion) in
     if c_op criterion = ''eq'' then factValue = c_value criterion
     else if c_op criterion = ''gte'' then is_number factValue \<and> js_ge factValue (c_value criterion)
     else if c_op criterion = ''lte'' then is_number factValue \<and> js_le factValue (c_value criterion)
     else False)"

definition rule_matches :: "jsobj \<Rightarrow> RedFlagRule \<Rightarrow> bool" where
  "rule_matches facts rule =
    (let matches = False;
         matches = (case criteria_all rule of
                      Some cs \<Rightarrow> list_all (eval_criterion facts) cs
                    | None \<Rightarrow> matches);
         matches = (case criteria_any rule of
                      Some cs \<Rightarrow> (if \<not> matches then list_ex (eval_criterion facts) cs else matches)
                    | None \<Rightarrow> matches)
     in matches)"

definition requiredFacts :: "RedFlagRule \<Rightarrow> string list" where
  "requiredFacts rule =
     map c_fact (case criteria_all rule of Some cs \<Rightarrow> cs | None \<Rightarrow> [])
     @ map c_fact (case criteria_any rule of Some cs \<Rightarrow> cs | None \<Rightarrow> [])"

definition hasFacts :: "jsobj \<Rightarrow> RedFlagRule \<Rightarrow> bool" where
  "hasFacts facts rule = list_ex (\<lambda>k. facts k \<noteq> None) (requiredFacts rule)"

definition as_triggered :: "RedFlagRule \<Rightarrow> TriggeredFlag" where
  "as_triggered rule = \<lparr> t_code = code rule, t_label = label rule, t_evidence = evidence_prompt rule \<rparr>"

fun red_flag_loop :: "jsobj \<Rightarrow> RedFlagRule list \<Rightarrow> RedFlagResult \<Rightarrow> RedFlagResult" where
  "red_flag_loop facts [] acc = acc"
| "red_flag_loop facts (rule # rules) acc =
     red_flag_loop facts rules
       (if rule_matches facts rule then acc\<lparr> triggered := triggered acc @ [as_triggered rule] \<rparr>
        else if hasFacts facts rule then acc\<lparr> notTriggered := notTriggered acc @ [label rule] \<rparr>
        else acc\<lparr> notAssessed := notAssessed acc @ [label rule] \<rparr>)"

definition evaluateRedFlags :: "RedFlagRule list \<Rightarrow> jsobj \<Rightarrow> RedFlagResult" where
  "evaluateRedFlags redFlagRules facts =
     red_flag_loop facts redFlagRules \<lparr> triggered = [], notTriggered = [], notAssessed = [] \<rparr>"

section \<open>Fact reconciliation (handoff.ts)\<close>

datatype Role = Assistant | User

record ChatMessage =
  role :: Role
  content :: string

definition CONFIDENCE_CRITICAL :: int where
  "CONFIDENCE_CRITICAL = 70"

definition CONFIDENCE_DEFAULT :: int where
  "CONFIDENCE_DEFAULT = 50"

definition CRITICAL_FACT_KEYS :: "string list" where
  "CRITICAL_FACT_KEYS =
    [''severity_score'', ''chest_pain'', ''shortness_of_breath'', ''collapse'', ''confusion'',
     ''severe_bleeding'', ''fainting'', ''face_droop'', ''arm_weakness'', ''speech_difficulty'',
     ''thunderclap'', ''neck_stiffness'', ''non_blanching_rash'', ''vomiting_blood'',
     ''pregnant_possible'', ''fever'']"

text \<open>\<^verbatim>\<open>if (state.src != null) m.dst = state.src\<close>\<close>

definition copy_field :: "jsobj \<Rightarrow> string \<Rightarrow> string \<Rightarrow> jsobj \<Rightarrow> jsobj" where
  "copy_field state src dst m =
     (if \<not> nullish (jsget state src) then m(dst \<mapsto> jsget state src) else m)"

text \<open>
  \<^verbatim>\<open>if (state.openingDescription != null && !m.chief_complaint)
  m.chief_complaint = state.openingDescription\<close>
\<close>

definition copy_opening :: "jsobj \<Rightarrow> jsobj \<Rightarrow> jsobj" where
  "copy_opening state m =
     (if \<not> nullish (jsget state ''openingDescription'') \<and> \<not> truthy (jsget m ''chief_complaint'')
      then m(''chief_complaint'' \<mapsto> jsget state ''openingDescription'') else m)"

text \<open>
  \<^verbatim>\<open>if (state.troubleBreathing != null)
  m.shortness_of_breath = m.shortness_of_breath ?? state.troubleBreathing\<close>
\<close>

definition copy_breathing :: "jsobj \<Rightarrow> jsobj \<Rightarrow> jsobj" where
  "copy_breathing state m =
     (if \<not> nullish (jsget state ''troubleBreathing'')
      then m(''shortness_of_breath'' \<mapsto>
             js_coalesce (jsget m ''shortness_of_breath'') (jsget state ''troubleBreathing''))
      else m)"

definition deterministicFactsFromState :: "jsobj \<Rightarrow> jsobj" where
  "deterministicFactsFromState state =
    (let m = Map.empty;
         m = copy_field state ''age'' ''age_years'' m;
         m = copy_field state ''sex'' ''sex'' m;
         m = copy_field state ''complaint'' ''chief_complaint'' m;
         m = copy_opening state m;
         m = copy_field state ''onset'' ''onset'' m;
         m = copy_field state ''duration'' ''duration'' m;
         m = copy_field state ''severity'' ''severity_score'' m;
         m = copy_field state ''location'' ''location'' m;
         m = copy_field state ''shortnessOfBreath'' ''shortness_of_breath'' m;
         m = copy_breathing state m;
         m = copy_field state ''collapse'' ''collapse'' m;
         m = copy_field state ''confusion'' ''confusion'' m;
         m = copy_field state ''severeBleeding'' ''severe_bleeding'' m;
         m = copy_field state ''radiatingPain'' ''radiating_pain'' m;
         m = copy_field state ''thunderclap'' ''thunderclap'' m;
         m = copy_field state ''neckStiffness'' ''neck_stiffness'' m;
         m = copy_field state ''nonBlanchingRash'' ''non_blanching_rash'' m;
         m = copy_field state ''vomitingBlood'' ''vomiting_blood'' m;
         m = copy_field state ''pregnancy'' ''pregnant_possible'' m;
         m = copy_field state ''fever'' ''fever'' m
     in m)"

definition is_word :: "char \<Rightarrow> bool" where
  "is_word c = (is_digit c \<or> is_upper c \<or> (97 \<le> (of_char c :: nat) \<and> (of_char c :: nat) \<le> 122)
                \<or> c = CHR ''_'')"

text \<open>After \<^verbatim>\<open>\d{1,2}\<close>: \<^verbatim>\<open>\s*\/\s*10\<close>.\<close>

definition score_tail :: "string \<Rightarrow> bool" where
  "score_tail s =
     (case dropWhile is_space s of
        [] \<Rightarrow> False
      | c # r \<Rightarrow> c = CHR ''/'' \<and> startsWith (dropWhile is_space r) ''10'')"

text \<open>\<^verbatim>\<open>/\d{1,2}\s*\/\s*10/\<close> matches somewhere in the string.\<close>

fun score_pattern :: "string \<Rightarrow> bool" where
  "score_pattern [] = False"
| "score_pattern (c # cs) =
     ((is_digit c \<and> (score_tail cs \<or> (case cs of [] \<Rightarrow> False | d # ds \<Rightarrow> is_digit d \<and> score_tail ds)))
      \<or> score_pattern cs)"

text \<open>A word boundary after the digits: the end of the text or a non-word character.\<close>

definition ends_word :: "string \<Rightarrow> bool" where
  "ends_word s = (case s of [] \<Rightarrow> True | c # r \<Rightarrow> \<not> is_word c)"

text \<open>
  \<^verbatim>\<open>/\b\d{1,2}\b/\<close> matches somewhere in the string; the flag says whether the
  character before the current position is a word character.
\<close>

fun short_number :: "bool \<Rightarrow> string \<Rightarrow> bool" where
  "short_number prev [] = False"
| "short_number prev (c # cs) =
     ((\<not> prev \<and> is_digit c
        \<and> (ends_word cs \<or> (case cs of [] \<Rightarrow> False | d # ds \<Rightarrow> is_digit d \<and> ends_word ds)))
      \<or> short_number (is_word c) cs)"

definition foundInConversation :: "string \<Rightarrow> jsval \<Rightarrow> bool" where
  "foundInConversation conversationText v =
    (let text = toLowerCase conversationText in
     case v of
       JBool b \<Rightarrow> True
     | JNum n \<Rightarrow> str_includes text (string_of_int n)
                  \<or> (n \<le> 10 \<and> (score_pattern text \<or> short_number False text))
     | JStr s \<Rightarrow> str_includes text (trim (toLowerCase s))
     | _ \<Rightarrow> False)"

record ExtractedFact =
  f_key :: string
  f_value :: jsval
  f_confidence :: int

text \<open>
  The parsed reply of the extraction call: \<^verbatim>\<open>result.facts\<close> and
  \<^verbatim>\<open>result.negations\<close>, each possibly absent.
\<close>

record ExtractionResult =
  r_facts :: "ExtractedFact list option"
  r_negations :: "ExtractedFact list option"

text \<open>One call of \<^verbatim>\<open>opts.onDivergence(sessionId, key, llmValue, stateValue)\<close>.\<close>

record Divergence =
  d_session :: "int option"
  d_key :: string
  d_llm :: jsval
  d_state :: jsval

fun is_boolean :: "jsval \<Rightarrow> bool" where
  "is_boolean (JBool b) = True"
| "is_boolean v = False"

definition threshold :: "string \<Rightarrow> int" where
  "threshold k = (if k \<in> set CRITICAL_FACT_KEYS then CONFIDENCE_CRITICAL else CONFIDENCE_DEFAULT)"

text \<open>The two \<^verbatim>\<open>continue\<close> tests of the facts loop: a fact that passes both is admitted.\<close>

definition passes_gates :: "string \<Rightarrow> ExtractedFact \<Rightarrow> bool" where
  "passes_gates patientMessages item =
    (if f_confidence item < threshold (f_key item) then False
     else let mustValidate = (f_key item \<in> set CRITICAL_FACT_KEYS \<and> \<not> is_boolean (f_value item)) in
       if mustValidate \<and> \<not> foundInConversation patientMessages (f_value item) then False
       else True)"

definition diverges :: "jsobj \<Rightarrow> ExtractedFact \<Rightarrow> bool" where
  "diverges deterministic item =
     (jsget deterministic (f_key item) \<noteq> JUndefined
      \<and> jsget deterministic (f_key item) \<noteq> f_value item)"

definition divergence_of :: "int option \<Rightarrow> jsobj \<Rightarrow> ExtractedFact \<Rightarrow> Divergence" where
  "divergence_of sessionId deterministic item =
     \<lparr> d_session = sessionId, d_key = f_key item, d_llm = f_value item,
       d_state = jsget deterministic (f_key item) \<rparr>"

fun facts_loop ::
  "string \<Rightarrow> jsobj \<Rightarrow> int option \<Rightarrow> ExtractedFact list \<Rightarrow> jsobj \<times> Divergence list
     \<Rightarrow> jsobj \<times> Divergence list" where
  "facts_loop patientMessages deterministic sessionId [] acc = acc"
| "facts_loop patientMessages deterministic sessionId (item # rest) (facts, events) =
     (if \<not> passes_gates patientMessages item
      then facts_loop patientMessages deterministic sessionId rest (facts, events)
      else facts_loop patientMessages deterministic sessionId rest
             (facts(f_key item \<mapsto> f_value item),
              if diverges deterministic item
              then events @ [divergence_of sessionId deterministic item] else events))"

fun negations_loop :: "ExtractedFact list \<Rightarrow> jsobj \<Rightarrow> jsobj" where
  "negations_loop [] facts = facts"
| "negations_loop (neg # rest) facts =
     (if f_confidence neg < threshold (f_key neg) then negations_loop rest facts
      else negations_loop rest (facts(f_key neg \<mapsto> JBool False)))"

text \<open>
  \<^verbatim>\<open>extractFactsFromMessages\<close>. The extraction call is a parameter: given the patient
  text and the deterministic facts it yields the parsed reply, or \<open>None\<close> when the
  call or \<^verbatim>\<open>JSON.parse\<close> throws (the \<^verbatim>\<open>catch\<close> branch returns the facts as they
  are then). A parsed reply holds two optional arrays of entries (\<^verbatim>\<open>if (result.facts)\<close>). The
  result is the fact record together with the divergence events passed to
  \<^verbatim>\<open>onDivergence\<close>, in order.
\<close>

definition patient_text :: "ChatMessage list \<Rightarrow> string" where
  "patient_text messages = join [CHR 0x0A] (map content (filter (\<lambda>m. role m = User) messages))"

definition extractFactsFromMessages ::
  "(string \<Rightarrow> jsobj \<Rightarrow> ExtractionResult option) \<Rightarrow> ChatMessage list \<Rightarrow> jsobj \<Rightarrow> int option
     \<Rightarrow> jsobj \<times> Divergence list" where
  "extractFactsFromMessages llm messages existingFacts sessionId =
    (let patientMessages = patient_text messages;
         deterministic = deterministicFactsFromState existingFacts;
         facts = existingFacts ++ deterministic
     in if trim patientMessages = [] then (facts, [])
        else case llm patientMessages deterministic of
               None \<Rightarrow> (facts, [])
             | Some result \<Rightarrow>
                 (let (facts, events) =
                        (case r_facts result of
                           Some fs \<Rightarrow> facts_loop patientMessages deterministic sessionId fs (facts, [])
                         | None \<Rightarrow> (facts, []));
                      facts = (case r_negations result of
                                 Some ns \<Rightarrow> negations_loop ns facts
                               | None \<Rightarrow> facts)
                  in (facts, events)))"

section \<open>Dialogue state machine (chatStateMachine.ts)\<close>

datatype Stage =
    Opening | Localisation | Time_start | Time_trend | Severity
  | Danger_breathing | Danger_collapse | Danger_severe_pain | Danger_bleeding | Danger_confusion
  | Red_flags | Rag_followup
  | Context_conditions | Context_medications | Context_surgery
  | Functional_eat | Functional_move | Functional_activities
  | Collect_name | Summary | Complete | Escalated

text \<open>The string each stage is in the source.\<close>

fun stage_name :: "Stage \<Rightarrow> string" where
  "stage_name Opening = ''opening''"
| "stage_name Localisation = ''localisation''"
| "stage_name Time_start = ''time_start''"
| "stage_name Time_trend = ''time_trend''"
| "stage_name Severity = ''severity''"
| "stage_name Danger_breathing = ''danger_breathing''"
| "stage_name Danger_collapse = ''danger_collapse''"
| "stage_name Danger_severe_pain = ''danger_severe_pain''"
| "stage_name Danger_bleeding = ''danger_bleeding''"
| "stage_name Danger_confusion = ''danger_confusion''"
| "stage_name Red_flags = ''red_flags''"
| "stage_name Rag_followup = ''rag_followup''"
| "stage_name Context_conditions = ''context_conditions''"
| "stage_name Context_medications = ''context_medications''"
| "stage_name Context_surgery = ''context_surgery''"
| "stage_name Functional_eat = ''functional_eat''"
| "stage_name Functional_move = ''functional_move''"
| "stage_name Functional_activities = ''functional_activities''"
| "stage_name Collect_name = ''collect_name''"
| "stage_name Summary = ''summary''"
| "stage_name Complete = ''complete''"
| "stage_name Escalated = ''escalated''"

definition COMPLAINTS :: "string list" where
  "COMPLAINTS = [''chest pain'', ''shortness of breath'', ''abdominal pain'', ''headache'', ''fever'']"

record RedFlagQuestion =
  q_question :: string
  q_field :: string

text \<open>\<^verbatim>\<open>RED_FLAG_QUESTIONS[complaint] || []\<close>\<close>

definition RED_FLAG_QUESTIONS :: "string \<Rightarrow> RedFlagQuestion list" where
  "RED_FLAG_QUESTIONS complaint =
    (if complaint = ''chest pain'' then
       [\<lparr> q_question = ''Is the pain spreading to your arm, jaw, neck, or back?'', q_field = ''radiatingPain'' \<rparr>,
        \<lparr> q_question = ''Are you sweating or feeling clammy?'', q_field = ''sweating'' \<rparr>,
        \<lparr> q_question = ''Do you have any nausea or vomiting?'', q_field = ''nausea'' \<rparr>]
     else if complaint = ''shortness of breath'' then
       [\<lparr> q_question = ''Are you wheezing or making unusual sounds when breathing?'', q_field = ''wheezing'' \<rparr>,
        \<lparr> q_question = ''Have you coughed up any blood?'', q_field = ''coughingBlood'' \<rparr>,
        \<lparr> q_question = ''Do you have any chest pain or tightness?'', q_field = ''chestPain'' \<rparr>]
     else if complaint = ''abdominal pain'' then
       [\<lparr> q_question = ''Are you vomiting blood or something that looks like coffee grounds?'',
          q_field = ''vomitingBlood'' \<rparr>,
        \<lparr> q_question = ''Have you noticed any blood in your stool or urine?'', q_field = ''bloodyStools'' \<rparr>,
        \<lparr> q_question = ''Is the pain worse when you move or press on the area?'',
          q_field = ''worseWithMovement'' \<rparr>,
        \<lparr> q_question = ''Do you have a fever or feel shivery?'', q_field = ''feverWithPain'' \<rparr>,
        \<lparr> q_question = ''Are you pregnant or could you be pregnant?'', q_field = ''pregnancy'' \<rparr>]
     else if complaint = ''headache'' then
       [\<lparr> q_question = ''Did this headache come on suddenly like a thunderclap?'', q_field = ''thunderclap'' \<rparr>,
        \<lparr> q_question = ''Do you have a stiff neck or does it hurt to bend your head forward?'',
          q_field = ''neckStiffness'' \<rparr>,
        \<lparr> q_question = ''Are you experiencing any vision problems or seeing double?'',
          q_field = ''visualDisturbance'' \<rparr>,
        \<lparr> q_question = ''Do you have any weakness, numbness, or difficulty speaking?'',
          q_field = ''neurologicalSymptoms'' \<rparr>,
        \<lparr> q_question = ''Are you sensitive to light?'', q_field = ''photophobia'' \<rparr>]
     else if complaint = ''fever'' then
       [\<lparr> q_question = ''Do you have a rash that doesn't fade when you press a glass against it?'',
          q_field = ''nonBlanchingRash'' \<rparr>,
        \<lparr> q_question = ''Do you have a stiff neck?'', q_field = ''neckStiffness'' \<rparr>,
        \<lparr> q_question = ''Are you able to keep fluids down?'', q_field = ''canKeepFluids'' \<rparr>]
     else [])"

record FallbackPrompts =
  p_first :: string
  p_second :: string
  p_final :: string

text \<open>\<^verbatim>\<open>FALLBACK_PROMPTS[category]\<close>; \<open>None\<close> for a category without prompts.\<close>

definition FALLBACK_PROMPTS :: "string \<Rightarrow> FallbackPrompts option" where
  "FALLBACK_PROMPTS category =
    (if category = ''opening'' then Some
       \<lparr> p_first = ''I understand. Could you describe your main symptom in a bit more detail?'',
         p_second = ''What is the single thing that's bothering you most right now?'',
         p_final = ''Please tell me: are you experiencing chest pain, breathing problems, stomach pain, headache, or fever?'' \<rparr>
     else if category = ''localisation'' then Some
       \<lparr> p_first = ''Which part of your body is bothering you the most right now?'',
         p_second = ''Can you point to where the problem is? Upper body, lower body, head, chest, or stomach?'',
         p_final = ''Please tell me the area: head, chest, stomach, back, arms, or legs?'' \<rparr>
     else if category = ''time_start'' then Some
       \<lparr> p_first = ''Can you estimate: was it today, yesterday, or longer ago?'',
         p_second = ''Did this start hours ago, days ago, or weeks ago?'',
         p_final = ''Roughly how long have you had this problem?'' \<rparr>
     else if category = ''time_trend'' then Some
       \<lparr> p_first = ''Would you say it's better, worse, or about the same as when it started?'',
         p_second = ''Is the problem getting worse, getting better, or staying the same?'',
         p_final = ''Please tell me: worse, better, or the same?'' \<rparr>
     else if category = ''severity'' then Some
       \<lparr> p_first = ''If 0 is no problem and 10 is the worst possible, what number would you give it?'',
         p_second = ''Is it mild (1-3), moderate (4-6), or severe (7-10)?'',
         p_final = ''Just give me a number from 0 to 10 for how bad it is.'' \<rparr>
     else if category = ''danger'' then Some
       \<lparr> p_first = ''Just to confirm, is that a yes or a no?'',
         p_second = ''I need a clear answer for safety. Yes or no?'',
         p_final = ''Please answer yes or no.'' \<rparr>
     else if category = ''red_flags'' then Some
       \<lparr> p_first = ''Is that a yes or no?'',
         p_second = ''I need to know for safety. Yes or no?'',
         p_final = ''Please answer with yes or no.'' \<rparr>
     else if category = ''context'' then Some
       \<lparr> p_first = ''Could you tell me a bit more about that?'',
         p_second = ''Any details you can share would help.'',
         p_final = ''You can say 'none' if nothing applies.'' \<rparr>
     else if category = ''functional'' then Some
       \<lparr> p_first = ''Are you able to do that? Yes or no.'',
         p_second = ''Can you manage that normally? Yes or no.'',
         p_final = ''Please answer yes or no.'' \<rparr>
     else None)"

text \<open>\<^verbatim>\<open>words.some(w => lower === w || lower.startsWith(w + " ") || lower.includes(" " + w))\<close>\<close>

definition matches_word :: "string \<Rightarrow> string list \<Rightarrow> bool" where
  "matches_word lower ws =
     list_ex (\<lambda>w. lower = w \<or> startsWith lower (w @ '' '') \<or> str_includes lower ('' '' @ w)) ws"

definition yesWords :: "string list" where
  "yesWords = [''yes'', ''y'', ''yeah'', ''yep'', ''true'', ''correct'', ''yea'', ''sure'', ''ok'', ''okay'',
               ''definitely'', ''absolutely'', ''i can'', ''i am'', ''i do'']"

definition noWords :: "string list" where
  "noWords = [''no'', ''n'', ''nope'', ''nah'', ''false'', ''negative'', ''none'', ''not'', ''can't'',
              ''cannot'', ''don't'', ''i can't'', ''i cannot'', ''i don't'']"

definition parseYesNo :: "string \<Rightarrow> bool option" where
  "parseYesNo input =
    (let lower = trim (toLowerCase input) in
     if matches_word lower yesWords then Some True
     else if matches_word lower noWords then Some False
     else None)"

text \<open>
  \<^verbatim>\<open>input.match(/\d+/)\<close> takes the first run of digits, \<^verbatim>\<open>parseInt\<close> reads it as a
  decimal number.
\<close>

definition parseNumber :: "string \<Rightarrow> int option" where
  "parseNumber input =
    (let digits = takeWhile is_digit (dropWhile (\<lambda>c. \<not> is_digit c) input) in
     if digits = [] then None else Some (int (digits_to_nat digits)))"

definition parseComplaint :: "string \<Rightarrow> string option" where
  "parseComplaint input =
    (let lower = toLowerCase input in
     case List.find (\<lambda>complaint. str_includes lower complaint) COMPLAINTS of
       Some complaint \<Rightarrow> Some complaint
     | None \<Rightarrow>
        if str_includes lower ''chest'' \<or> str_includes lower ''heart'' then Some ''chest pain''
        else if str_includes lower ''breath'' \<or> str_includes lower ''breathing''
                \<or> str_includes lower ''breathless'' \<or> str_includes lower ''can't breathe''
          then Some ''shortness of breath''
        else if str_includes lower ''stomach'' \<or> str_includes lower ''abdomen''
                \<or> str_includes lower ''belly'' \<or> str_includes lower ''tummy''
                \<or> str_includes lower ''gut''
          then Some ''abdominal pain''
        else if str_includes lower ''head'' \<or> str_includes lower ''migraine'' then Some ''headache''
        else if str_includes lower ''fever'' \<or> str_includes lower ''temperature''
                \<or> str_includes lower ''hot'' \<or> str_includes lower ''chills''
                \<or> str_includes lower ''shiver''
          then Some ''fever''
        else None)"

definition getFallbackPrompt :: "string \<Rightarrow> int \<Rightarrow> string" where
  "getFallbackPrompt stage retryCount =
    (let category = stage;
         category = (if startsWith stage ''danger_'' then ''danger'' else category);
         category = (if startsWith stage ''context_'' then ''context'' else category);
         category = (if startsWith stage ''functional_'' then ''functional'' else category)
     in case FALLBACK_PROMPTS category of
          None \<Rightarrow> ''I didn't quite catch that. Could you try again?''
        | Some prompts \<Rightarrow>
            if retryCount = 0 then p_first prompts
            else if retryCount = 1 then p_second prompts
            else p_final prompts)"

text \<open>\<^verbatim>\<open>cond ? value + '/10' : 'Not rated'\<close> and the other lines of the confirmation.\<close>

definition generateSummaryConfirmation :: "jsobj \<Rightarrow> string" where
  "generateSummaryConfirmation state =
    (let summary = ''Thank you '' @ js_String (js_or (jsget state ''patientName'') (JStr ''for that information''))
                   @ ''. Let me confirm what you've told me:'' @ [CHR 0x0A, CHR 0x0A];
         summary = summary @ ''- Name: ''
                   @ js_String (js_or (jsget state ''patientName'') (JStr ''Not provided'')) @ [CHR 0x0A];
         summary = summary @ ''- Main concern: ''
                   @ js_String (js_or (jsget state ''complaint'') (JStr ''Not specified'')) @ [CHR 0x0A];
         summary = summary @ ''- Location: ''
                   @ js_String (js_or (jsget state ''location'') (JStr ''Not specified'')) @ [CHR 0x0A];
         summary = summary @ ''- Started: ''
                   @ js_String (js_or (jsget state ''onset'') (JStr ''Not specified'')) @ [CHR 0x0A];
         summary = summary @ ''- Trend: ''
                   @ js_String (js_or (jsget state ''timeTrend'') (JStr ''Not specified'')) @ [CHR 0x0A];
         summary = summary @ ''- Severity: ''
                   @ (if jsget state ''severity'' \<noteq> JUndefined
                      then js_String (jsget state ''severity'') @ ''/10'' else ''Not rated'') @ [CHR 0x0A];
         summary = (if truthy (jsget state ''medicalHistory'')
                       \<and> jsget state ''medicalHistory'' \<noteq> JStr ''None reported''
                    then summary @ ''- Medical conditions: '' @ js_String (jsget state ''medicalHistory'')
                         @ [CHR 0x0A]
                    else summary);
         summary = (if truthy (jsget state ''medications'') \<and> jsget state ''medications'' \<noteq> JStr ''None''
                    then summary @ ''- Medications: '' @ js_String (jsget state ''medications'') @ [CHR 0x0A]
                    else summary);
         summary = summary @ [CHR 0x0A] @ ''Is this correct? (Yes/No)''
     in summary)"

record NextQuestion =
  question :: string
  nextStage :: Stage

definition getNextQuestion :: "jsobj \<Rightarrow> Stage \<Rightarrow> NextQuestion" where
  "getNextQuestion state stage =
    (case stage of
       Opening \<Rightarrow>
         \<lparr> question = ''Can you tell me what's happening right now and what made you seek help today?'',
           nextStage = Localisation \<rparr>
     | Localisation \<Rightarrow> \<lparr> question = ''Where in your body is the main problem?'', nextStage = Time_start \<rparr>
     | Time_start \<Rightarrow> \<lparr> question = ''When did this start?'', nextStage = Time_trend \<rparr>
     | Time_trend \<Rightarrow>
         \<lparr> question = ''Is it getting better, worse, or staying the same?'', nextStage = Severity \<rparr>
     | Severity \<Rightarrow>
         \<lparr> question = ''On a scale from 0 to 10, how severe is it right now?'',
           nextStage = Danger_breathing \<rparr>
     | Danger_breathing \<Rightarrow>
         \<lparr> question = ''Are you having trouble breathing right now?'', nextStage = Danger_collapse \<rparr>
     | Danger_collapse \<Rightarrow>
         \<lparr> question = ''Have you collapsed, fainted, or felt close to passing out?'',
           nextStage = Danger_severe_pain \<rparr>
     | Danger_severe_pain \<Rightarrow>
         \<lparr> question = ''Is the pain severe or unbearable?'', nextStage = Danger_bleeding \<rparr>
     | Danger_bleeding \<Rightarrow>
         \<lparr> question = ''Are you bleeding heavily right now?'', nextStage = Danger_confusion \<rparr>
     | Danger_confusion \<Rightarrow>
         \<lparr> question = ''Are you confused, drowsy, or hard to wake?'', nextStage = Red_flags \<rparr>
     | Red_flags \<Rightarrow>
         (let complaint = complaint_lower (jsget state ''complaint'');
              questions = RED_FLAG_QUESTIONS complaint;
              nextQuestion = List.find (\<lambda>q. state (q_field q) = None) questions
          in case nextQuestion of
               Some q \<Rightarrow> \<lparr> question = q_question q, nextStage = Red_flags \<rparr>
             | None \<Rightarrow> \<lparr> question = [], nextStage = Rag_followup \<rparr>)
     | Rag_followup \<Rightarrow> \<lparr> question = [], nextStage = Context_conditions \<rparr>
     | Context_conditions \<Rightarrow>
         \<lparr> question = ''Do you have any long-term medical conditions?'', nextStage = Context_medications \<rparr>
     | Context_medications \<Rightarrow>
         \<lparr> question = ''Are you taking any regular medications?'', nextStage = Context_surgery \<rparr>
     | Context_surgery \<Rightarrow>
         \<lparr> question = ''Have you had any surgery in this area before?'', nextStage = Functional_eat \<rparr>
     | Functional_eat \<Rightarrow> \<lparr> question = ''Are you able to eat or drink?'', nextStage = Functional_move \<rparr>
     | Functional_move \<Rightarrow>
         \<lparr> question = ''Can you move around normally?'', nextStage = Functional_activities \<rparr>
     | Functional_activities \<Rightarrow>
         \<lparr> question = ''Is this stopping you from doing normal daily activities?'',
           nextStage = Collect_name \<rparr>
     | Collect_name \<Rightarrow>
         \<lparr> question = ''Thank you for that information. Before I complete your assessment, can I take your full name please?'',
           nextStage = Summary \<rparr>
     | Summary \<Rightarrow> \<lparr> question = generateSummaryConfirmation state, nextStage = Complete \<rparr>
     | _ \<Rightarrow> \<lparr> question = ''Thank you for completing the assessment.'', nextStage = Complete \<rparr>)"

definition EMERGENCY_RESPONSE :: string where
  "EMERGENCY_RESPONSE = ''Based on what you've told me, this could be urgent. You need emergency medical help now. Please call 999 or go to A&E immediately.''"

definition SAFETY_NET :: string where
  "SAFETY_NET = [CHR 0x0A, CHR 0x0A] @ ''If your symptoms suddenly get worse, or you develop new symptoms like severe pain, breathlessness, collapse, or bleeding, seek urgent medical help immediately.''"

definition emergencyKeywords :: "string list" where
  "emergencyKeywords =
    [''severe chest pain'', ''severe breathing'', ''can't breathe'', ''blue lips'',
     ''collapsed'', ''fainted'', ''fainting'', ''confusion'', ''confused'', ''seizure'',
     ''worst headache'', ''stiff neck'', ''fever'', ''purple rash'', ''heavy bleeding'',
     ''bleeding heavily'', ''unconscious'', ''not responding'']"

definition checkEmergencySigns :: "string \<Rightarrow> bool" where
  "checkEmergencySigns input =
    (let lower = toLowerCase input in
     list_ex (\<lambda>keyword. str_includes lower keyword) emergencyKeywords)"

subsection \<open>Classification of a finished chat\<close>

definition getGreenRecommendations :: "string \<Rightarrow> string list" where
  "getGreenRecommendations complaint =
    (let lowerComplaint = toLowerCase complaint in
     if lowerComplaint = ''chest pain'' then
       [''Rest and avoid strenuous physical activity'',
        ''Monitor your symptoms - if pain worsens or spreads, seek immediate medical attention'',
        ''Consider over-the-counter antacids if the pain feels like heartburn'',
        ''Keep a symptom diary noting when pain occurs and what triggers it'',
        ''Schedule an appointment with your GP within the next few days'']
     else if lowerComplaint = ''shortness of breath'' then
       [''Rest in a comfortable position and try to relax'',
        ''Practice slow, deep breathing exercises'',
        ''Avoid known triggers such as allergens or strenuous activity'',
        ''Stay hydrated and keep your environment well-ventilated'',
        ''Book an appointment with your GP to discuss your symptoms'']
     else if lowerComplaint = ''abdominal pain'' then
       [''Stay hydrated with clear fluids'',
        ''Eat light, bland foods if tolerated'',
        ''Apply a warm compress to your abdomen for comfort'',
        ''Avoid spicy, fatty, or acidic foods'',
        ''Rest and monitor your symptoms - see a GP if they persist beyond 24-48 hours'']
     else if lowerComplaint = ''headache'' then
       [''Rest in a quiet, dark room'',
        ''Stay well hydrated'',
        ''Consider over-the-counter pain relief like paracetamol or ibuprofen'',
        ''Apply a cold or warm compress to your forehead or neck'',
        ''Reduce screen time and take regular breaks from work'']
     else if lowerComplaint = ''fever'' then
       [''Rest and get plenty of sleep'',
        ''Drink plenty of fluids to stay hydrated'',
        ''Take paracetamol or ibuprofen to help reduce temperature'',
        ''Wear light clothing and keep your room cool'',
        ''Monitor your temperature and seek medical advice if it exceeds 39.4''
          @ [CHR 0xC2, CHR 0xB0] @ ''C (103'' @ [CHR 0xC2, CHR 0xB0] @ ''F)'']
     else
       [''Rest and monitor your symptoms'',
        ''Stay well hydrated'',
        ''Take over-the-counter pain relief if needed'',
        ''Schedule an appointment with your GP if symptoms persist'',
        ''Return for assessment if your condition worsens''])"

text \<open>The fields that \<^verbatim>\<open>buildTriageFromChat\<close> copies from the state as they are.\<close>

definition chat_copied_fields :: "string list" where
  "chat_copied_fields =
    [''onset'', ''location'', ''duration'', ''character'', ''aggravating'', ''relieving'',
     ''associated'', ''medicalHistory'', ''medications'', ''allergies'',
     ''troubleBreathing'', ''collapse'', ''severePain'', ''severeBleeding'', ''confusion'',
     ''shortnessOfBreath'', ''radiatingPain'', ''sweating'', ''nausea'', ''cardiacHistory'',
     ''cyanosis'', ''speakingDifficulty'', ''vomitingBlood'', ''bloodyStools'',
     ''worseWithMovement'', ''rigidAbdomen'', ''pregnancy'', ''feverWithPain'', ''thunderclap'',
     ''neckStiffness'', ''visualDisturbance'', ''neurologicalSymptoms'', ''photophobia'',
     ''nonBlanchingRash'', ''canKeepFluids'', ''wheezing'', ''coughingBlood'', ''chestPain'']"

text \<open>The \<^verbatim>\<open>answers\<close> object literal of \<^verbatim>\<open>buildTriageFromChat\<close>.\<close>

definition chat_answers :: "jsobj \<Rightarrow> jsobj" where
  "chat_answers state =
     map_of ([(''complaint'', js_or (jsget state ''complaint'') (JStr [])),
              (''age'', js_or (jsget state ''age'') (JNum 0)),
              (''sex'', js_or (jsget state ''sex'') (JStr [])),
              (''severity'', js_or (jsget state ''severity'') (JNum 0))]
             @ map (\<lambda>k. (k, jsget state k)) chat_copied_fields)"

record ChatTriage = TriageResult +
  recommendations :: "string list option"

definition buildTriageFromChat :: "jsobj \<Rightarrow> ChatTriage" where
  "buildTriageFromChat state =
    (let answers = chat_answers state;
         result = evaluateTriage answers
     in \<lparr> riskBand = riskBand result, redFlags = redFlags result, summary = summary result,
          recommendations =
            (if riskBand result = Green
             then Some (getGreenRecommendations
                          (js_String (js_or (jsget state ''complaint'') (JStr []))))
             else None) \<rparr>)"

definition generateFinalResponse :: "jsobj \<Rightarrow> string" where
  "generateFinalResponse state =
    (let result = buildTriageFromChat state;
         response =
           (if riskBand result = Red then
              ''Based on your answers, this could be serious and needs urgent medical attention. Please call 999 or go to A&E now.''
            else if riskBand result = Amber then
              ''This needs to be assessed today. I recommend contacting NHS 111 or attending an urgent care centre today.''
            else if length (redFlags result) > 0 then
              ''This doesn't sound immediately dangerous, but you should arrange a GP appointment soon given your symptoms.''
            else
              ''This sounds like something that can often be managed at home. I'll share some self-care advice with your assessment.'');
         response = response @ SAFETY_NET;
         response = response @ [CHR 0x0A, CHR 0x0A]
                    @ ''Your assessment has been recorded and a summary is now available for review.''
     in response)"

subsection \<open>One turn of the conversation\<close>

text \<open>
  The chat-completion call of \<^verbatim>\<open>generatePatientResponse\<close> is a parameter of the model:
  from the user input, the history, the state and the stage (all that the prompt is built
  from) it either throws or yields the content of the first choice, the empty string
  standing for a missing content.
\<close>

datatype completion = Threw | Content string

type_synonym generator = "string \<Rightarrow> ChatMessage list \<Rightarrow> jsobj \<Rightarrow> Stage \<Rightarrow> completion"

definition generatePatientResponse ::
  "generator \<Rightarrow> string \<Rightarrow> ChatMessage list \<Rightarrow> jsobj \<Rightarrow> Stage \<Rightarrow> string" where
  "generatePatientResponse gen userInput conversationHistory currentState currentStage =
    (case gen userInput conversationHistory currentState currentStage of
       Content c \<Rightarrow> (if c \<noteq> [] then c else ''I understand. Could you tell me more about that?'')
     | Threw \<Rightarrow> question (getNextQuestion currentState currentStage))"

text \<open>
  \<^verbatim>\<open>await generatePatientResponse(input, conversationHistory, newState, newStage)
  || getNextQuestion(newState, newStage).question\<close>
\<close>

definition respond :: "generator \<Rightarrow> string \<Rightarrow> ChatMessage list \<Rightarrow> jsobj \<Rightarrow> Stage \<Rightarrow> string" where
  "respond gen input conversationHistory newState newStage =
    (let r = generatePatientResponse gen input conversationHistory newState newStage in
     if r \<noteq> [] then r else question (getNextQuestion newState newStage))"

record TurnResult =
  newState :: jsobj
  newStage :: Stage
  response :: string
  isEscalation :: bool
  isComplete :: bool
  newRetryCount :: int

text \<open>The final \<^verbatim>\<open>return\<close> of a turn that neither escalates nor completes.\<close>

definition turn :: "jsobj \<Rightarrow> Stage \<Rightarrow> string \<Rightarrow> int \<Rightarrow> TurnResult" where
  "turn st sg resp rc =
     \<lparr> newState = st, newStage = sg, response = resp, isEscalation = False, isComplete = False,
       newRetryCount = rc \<rparr>"

text \<open>The early \<^verbatim>\<open>return\<close> of an escalation.\<close>

definition escalate :: "jsobj \<Rightarrow> TurnResult" where
  "escalate st =
     \<lparr> newState = st, newStage = Escalated, response = EMERGENCY_RESPONSE, isEscalation = True,
       isComplete = True, newRetryCount = 0 \<rparr>"

definition stage_opening :: "string \<Rightarrow> jsobj \<Rightarrow> int \<Rightarrow> TurnResult" where
  "stage_opening input currentState retryCount =
    (case parseComplaint input of
       Some complaint \<Rightarrow>
         (let newState = currentState(''complaint'' \<mapsto> JStr complaint);
              newState = newState(''openingDescription'' \<mapsto> JStr (trim input));
              newStage = Localisation
          in turn newState newStage (question (getNextQuestion newState newStage)) 0)
     | None \<Rightarrow>
         if length (trim input) > 10 then
           (let newState = currentState(''openingDescription'' \<mapsto> JStr (trim input));
                newStage = Localisation
            in turn newState newStage
                 (''Thank you for explaining. '' @ question (getNextQuestion newState newStage)) 0)
         else turn currentState Opening (getFallbackPrompt ''opening'' retryCount) (retryCount + 1))"

definition stage_localisation ::
  "generator \<Rightarrow> string \<Rightarrow> ChatMessage list \<Rightarrow> jsobj \<Rightarrow> int \<Rightarrow> TurnResult" where
  "stage_localisation gen input history currentState retryCount =
    (let location = trim input in
     if length location > 0 then
       (let newState = currentState(''location'' \<mapsto> JStr location);
            newState = (if \<not> truthy (jsget newState ''complaint'') then
                          (case parseComplaint location of
                             Some complaint \<Rightarrow> newState(''complaint'' \<mapsto> JStr complaint)
                           | None \<Rightarrow> newState)
                        else newState);
            newStage = Time_start
        in turn newState newStage (respond gen input history newState newStage) 0)
     else turn currentState Localisation (respond gen input history currentState Localisation)
            (retryCount + 1))"

definition stage_time_start ::
  "generator \<Rightarrow> string \<Rightarrow> ChatMessage list \<Rightarrow> jsobj \<Rightarrow> int \<Rightarrow> TurnResult" where
  "stage_time_start gen input history currentState retryCount =
    (let onset = trim input in
     if length onset > 0 then
       (let newState = currentState(''onset'' \<mapsto> JStr onset);
            newStage = Time_trend
        in turn newState newStage (respond gen input history newState newStage) 0)
     else turn currentState Time_start (respond gen input history currentState Time_start)
            (retryCount + 1))"

definition stage_time_trend ::
  "generator \<Rightarrow> string \<Rightarrow> ChatMessage list \<Rightarrow> jsobj \<Rightarrow> int \<Rightarrow> TurnResult" where
  "stage_time_trend gen input history currentState retryCount =
    (let trend = toLowerCase (trim input) in
     if length trend > 0 then
       (let newState = currentState(''timeTrend'' \<mapsto> JStr trend);
            newState = (if str_includes trend ''worse'' \<or> str_includes trend ''worsening''
                        then newState(''gettingWorse'' \<mapsto> JBool True) else newState);
            newStage = Severity
        in turn newState newStage (respond gen input history newState newStage) 0)
     else turn currentState Time_trend (respond gen input history currentState Time_trend)
            (retryCount + 1))"

definition stage_severity ::
  "generator \<Rightarrow> string \<Rightarrow> ChatMessage list \<Rightarrow> jsobj \<Rightarrow> int \<Rightarrow> TurnResult" where
  "stage_severity gen input history currentState retryCount =
    (case parseNumber input of
       Some severity \<Rightarrow>
         if severity \<ge> 0 \<and> severity \<le> 10 then
           (let newState = currentState(''severity'' \<mapsto> JNum severity);
                newStage = Danger_breathing
            in turn newState newStage (respond gen input history newState newStage) 0)
         else turn currentState Severity (respond gen input history currentState Severity)
                (retryCount + 1)
     | None \<Rightarrow> turn currentState Severity (respond gen input history currentState Severity)
                 (retryCount + 1))"

text \<open>
  The four danger checks that escalate on any yes: the answer is stored in \<open>field\<close>, a yes
  escalates, a no moves to \<open>nxt\<close>, anything else is a retry at \<open>here\<close>.
\<close>

definition stage_danger ::
  "string \<Rightarrow> Stage \<Rightarrow> Stage \<Rightarrow> generator \<Rightarrow> string \<Rightarrow> ChatMessage list \<Rightarrow> jsobj \<Rightarrow> int
     \<Rightarrow> TurnResult" where
  "stage_danger field here nxt gen input history currentState retryCount =
    (case parseYesNo input of
       Some answer \<Rightarrow>
         (let newState = currentState(field \<mapsto> JBool answer) in
          if answer then escalate newState
          else turn newState nxt (respond gen input history newState nxt) 0)
     | None \<Rightarrow> turn currentState here (respond gen input history currentState here) (retryCount + 1))"

definition stage_danger_severe_pain ::
  "generator \<Rightarrow> string \<Rightarrow> ChatMessage list \<Rightarrow> jsobj \<Rightarrow> int \<Rightarrow> TurnResult" where
  "stage_danger_severe_pain gen input history currentState retryCount =
    (case parseYesNo input of
       Some answer \<Rightarrow>
         (let newState = currentState(''severePain'' \<mapsto> JBool answer) in
          if answer \<and> js_ge (js_coalesce (jsget newState ''severity'') (JNum 0)) (JNum 8)
          then escalate newState
          else turn newState Danger_bleeding (respond gen input history newState Danger_bleeding) 0)
     | None \<Rightarrow> turn currentState Danger_severe_pain
                 (respond gen input history currentState Danger_severe_pain) (retryCount + 1))"

definition stage_danger_confusion ::
  "generator \<Rightarrow> string \<Rightarrow> ChatMessage list \<Rightarrow> jsobj \<Rightarrow> int \<Rightarrow> TurnResult" where
  "stage_danger_confusion gen input history currentState retryCount =
    (case parseYesNo input of
       Some answer \<Rightarrow>
         (let newState = currentState(''confusion'' \<mapsto> JBool answer) in
          if answer then escalate newState
          else
            (let newStage = Red_flags;
                 nextQ = getNextQuestion newState newStage;
                 newStage = (if question nextQ = [] then Context_conditions else newStage)
             in turn newState newStage (respond gen input history newState newStage) 0))
     | None \<Rightarrow> turn currentState Danger_confusion
                 (respond gen input history currentState Danger_confusion) (retryCount + 1))"

definition criticalFlags :: "string list" where
  "criticalFlags = [''thunderclap'', ''nonBlanchingRash'', ''vomitingBlood'', ''neurologicalSymptoms'',
                    ''coughingBlood'', ''bloodyStools'']"

definition stage_red_flags ::
  "generator \<Rightarrow> string \<Rightarrow> ChatMessage list \<Rightarrow> jsobj \<Rightarrow> int \<Rightarrow> TurnResult" where
  "stage_red_flags gen input history currentState retryCount =
    (let complaint = complaint_lower (jsget currentState ''complaint'');
         questions = RED_FLAG_QUESTIONS complaint;
         currentQuestion = List.find (\<lambda>q. currentState (q_field q) = None) questions
     in case currentQuestion of
          Some q \<Rightarrow>
            (case parseYesNo input of
               Some answer \<Rightarrow>
                 (let newState = currentState(q_field q \<mapsto> JBool answer) in
                  if answer \<and> q_field q \<in> set criticalFlags then escalate newState
                  else
                    (let nextQ = getNextQuestion newState Red_flags in
                     if question nextQ = [] then
                       turn (newState(''ragQuestionsAsked'' \<mapsto> JNum 0)) Rag_followup [] 0
                     else
                       (let r = generatePatientResponse gen input history newState Red_flags in
                        turn newState Red_flags (if r \<noteq> [] then r else question nextQ) 0)))
             | None \<Rightarrow>
                 (let r = generatePatientResponse gen input history currentState Red_flags in
                  turn currentState Red_flags
                    (if r \<noteq> [] then r else getFallbackPrompt ''red_flags'' retryCount)
                    (retryCount + 1)))
        | None \<Rightarrow> turn (currentState(''ragQuestionsAsked'' \<mapsto> JNum 0)) Rag_followup [] 0)"

text \<open>\<^verbatim>\<open>ragCount + 1\<close> on the value left by \<^verbatim>\<open>newState.ragQuestionsAsked || 0\<close>, which is
  a number, a non-empty string or \<^verbatim>\<open>true\<close>.\<close>

fun js_plus_one :: "jsval \<Rightarrow> jsval" where
  "js_plus_one (JNum n) = JNum (n + 1)"
| "js_plus_one (JBool b) = JNum ((if b then 1 else 0) + 1)"
| "js_plus_one (JStr s) = JStr (s @ ''1'')"
| "js_plus_one JNull = JNum 1"
| "js_plus_one JUndefined = JUndefined"

definition stage_rag_followup ::
  "generator \<Rightarrow> string \<Rightarrow> ChatMessage list \<Rightarrow> jsobj \<Rightarrow> int \<Rightarrow> TurnResult" where
  "stage_rag_followup gen input history currentState retryCount =
    (let ragCount = js_or (jsget currentState ''ragQuestionsAsked'') (JNum 0);
         newState = currentState(''ragAnswer'' @ js_String ragCount \<mapsto> JStr (trim input));
         newState = newState(''ragQuestionsAsked'' \<mapsto> js_plus_one ragCount)
     in if js_lt ragCount (JNum 2) then turn newState Rag_followup [] 0
        else turn newState Context_conditions
               (respond gen input history newState Context_conditions) 0)"

text \<open>\<^verbatim>\<open>newState.field = input.trim() || fallback\<close>, then on to \<open>nxt\<close>.\<close>

definition stage_context ::
  "string \<Rightarrow> string \<Rightarrow> Stage \<Rightarrow> generator \<Rightarrow> string \<Rightarrow> ChatMessage list \<Rightarrow> jsobj \<Rightarrow> TurnResult" where
  "stage_context field fallback nxt gen input history currentState =
    (let newState = currentState(field \<mapsto> JStr (if trim input \<noteq> [] then trim input else fallback))
     in turn newState nxt (respond gen input history newState nxt) 0)"

text \<open>
  \<^verbatim>\<open>functional_eat\<close> and \<^verbatim>\<open>functional_move\<close>: a parsed yes or no is stored, anything
  else is stored as \<^verbatim>\<open>!input.toLowerCase().includes("no")\<close>.
\<close>

definition stage_functional ::
  "string \<Rightarrow> Stage \<Rightarrow> generator \<Rightarrow> string \<Rightarrow> ChatMessage list \<Rightarrow> jsobj \<Rightarrow> TurnResult" where
  "stage_functional field nxt gen input history currentState =
    (let newState =
           (case parseYesNo input of
              Some answer \<Rightarrow> currentState(field \<mapsto> JBool answer)
            | None \<Rightarrow> currentState(field \<mapsto> JBool (\<not> str_includes (toLowerCase input) ''no'')))
     in turn newState nxt (respond gen input history newState nxt) 0)"

definition stage_functional_activities ::
  "generator \<Rightarrow> string \<Rightarrow> ChatMessage list \<Rightarrow> jsobj \<Rightarrow> TurnResult" where
  "stage_functional_activities gen input history currentState =
    (let answer = parseYesNo input;
         newState = currentState(''stoppingActivities'' \<mapsto>
                      JBool (answer = Some True \<or> str_includes (toLowerCase input) ''yes''))
     in turn newState Collect_name (respond gen input history newState Collect_name) 0)"

definition stage_collect_name ::
  "generator \<Rightarrow> string \<Rightarrow> ChatMessage list \<Rightarrow> jsobj \<Rightarrow> int \<Rightarrow> TurnResult" where
  "stage_collect_name gen input history currentState retryCount =
    (let name = trim input in
     if length name \<ge> 2 then
       (let newState = currentState(''patientName'' \<mapsto> JStr name) in
        turn newState Summary (respond gen input history newState Summary) 0)
     else turn currentState Collect_name
            ''I need your full name to complete the assessment. Could you please provide your first and last name?''
            (retryCount + 1))"

definition stage_summary :: "string \<Rightarrow> jsobj \<Rightarrow> int \<Rightarrow> TurnResult" where
  "stage_summary input currentState retryCount =
    (case parseYesNo input of
       Some True \<Rightarrow>
         \<lparr> newState = currentState, newStage = Complete, response = generateFinalResponse currentState,
           isEscalation = False, isComplete = True, newRetryCount = 0 \<rparr>
     | Some False \<Rightarrow>
         turn Map.empty Opening
           (''No problem, let's start again. '' @ question (getNextQuestion currentState Opening)) 0
     | None \<Rightarrow>
         turn currentState Summary ''Is the information correct? Please answer yes or no.''
           (retryCount + 1))"

text \<open>The stage array of the forced advance and \<^verbatim>\<open>Array.prototype.indexOf\<close> on it.\<close>

definition forced_stages :: "Stage list" where
  "forced_stages =
    [Opening, Localisation, Time_start, Time_trend, Severity,
     Danger_breathing, Danger_collapse, Danger_severe_pain, Danger_bleeding, Danger_confusion,
     Red_flags, Context_conditions, Context_medications, Context_surgery,
     Functional_eat, Functional_move, Functional_activities, Summary]"

fun indexOf :: "'a list \<Rightarrow> 'a \<Rightarrow> int" where
  "indexOf [] x = - 1"
| "indexOf (y # ys) x =
     (if y = x then 0 else (let i = indexOf ys x in if i < 0 then - 1 else i + 1))"

definition maxRetries :: int where
  "maxRetries = 3"

definition processUserMessage ::
  "generator \<Rightarrow> string \<Rightarrow> ChatMessage list \<Rightarrow> jsobj \<Rightarrow> Stage \<Rightarrow> int \<Rightarrow> TurnResult" where
  "processUserMessage gen input conversationHistory currentState currentStage retryCount =
    (if checkEmergencySigns input then escalate currentState
     else
       (let currentIndex = indexOf forced_stages currentStage in
        if retryCount \<ge> maxRetries \<and> currentIndex < int (length forced_stages) - 1 then
          (let newStage = forced_stages ! nat (currentIndex + 1) in
           turn currentState newStage (question (getNextQuestion currentState newStage)) 0)
        else
          (case currentStage of
             Opening \<Rightarrow> stage_opening input currentState retryCount
           | Localisation \<Rightarrow> stage_localisation gen input conversationHistory currentState retryCount
           | Time_start \<Rightarrow> stage_time_start gen input conversationHistory currentState retryCount
           | Time_trend \<Rightarrow> stage_time_trend gen input conversationHistory currentState retryCount
           | Severity \<Rightarrow> stage_severity gen input conversationHistory currentState retryCount
           | Danger_breathing \<Rightarrow>
               stage_danger ''troubleBreathing'' Danger_breathing Danger_collapse
                 gen input conversationHistory currentState retryCount
           | Danger_collapse \<Rightarrow>
               stage_danger ''collapse'' Danger_collapse Danger_severe_pain
                 gen input conversationHistory currentState retryCount
           | Danger_severe_pain \<Rightarrow>
               stage_danger_severe_pain gen input conversationHistory currentState retryCount
           | Danger_bleeding \<Rightarrow>
               stage_danger ''severeBleeding'' Danger_bleeding Danger_confusion
                 gen input conversationHistory currentState retryCount
           | Danger_confusion \<Rightarrow>
               stage_danger_confusion gen input conversationHistory currentState retryCount
           | Red_flags \<Rightarrow> stage_red_flags gen input conversationHistory currentState retryCount
           | Rag_followup \<Rightarrow> stage_rag_followup gen input conversationHistory currentState retryCount
           | Context_conditions \<Rightarrow>
               stage_context ''medicalHistory'' ''None reported'' Context_medications
                 gen input conversationHistory currentState
           | Context_medications \<Rightarrow>
               stage_context ''medications'' ''None'' Context_surgery
                 gen input conversationHistory currentState
           | Context_surgery \<Rightarrow>
               stage_context ''previousSurgery'' ''None'' Functional_eat
                 gen input conversationHistory currentState
           | Functional_eat \<Rightarrow>
               stage_functional ''canEatDrink'' Functional_move gen input conversationHistory currentState
           | Functional_move \<Rightarrow>
               stage_functional ''canMove'' Functional_activities
                 gen input conversationHistory currentState
           | Functional_activities \<Rightarrow>
               stage_functional_activities gen input conversationHistory currentState
           | Collect_name \<Rightarrow> stage_collect_name gen input conversationHistory currentState retryCount
           | Summary \<Rightarrow> stage_summary input currentState retryCount
           | _ \<Rightarrow>
               \<lparr> newState = currentState, newStage = currentStage,
                 response = ''Thank you for completing the assessment.'' @ SAFETY_NET,
                 isEscalation = False, isComplete = True, newRetryCount = 0 \<rparr>)))"

section \<open>Handoff assembler (handoff.ts)\<close>

text \<open>The properties of \<^verbatim>\<open>buildAnswersFromState\<close> that default to \<^verbatim>\<open>false\<close>.\<close>

definition answers_false_defaults :: "string list" where
  "answers_false_defaults =
    [''collapse'', ''confusion'', ''severeBleeding'', ''radiatingPain'', ''sweating'', ''nausea'',
     ''cardiacHistory'', ''thunderclap'', ''neckStiffness'', ''visualDisturbance'',
     ''neurologicalSymptoms'', ''nonBlanchingRash'', ''vomitingBlood'', ''bloodyStools'',
     ''pregnancy'', ''fever'']"

text \<open>The properties \<^verbatim>\<open>buildAnswersFromState\<close> lists before \<^verbatim>\<open>...state\<close>.\<close>

definition answers_listed :: "jsobj \<Rightarrow> jsobj" where
  "answers_listed state =
     map_of ([(''complaint'', js_or (jsget state ''complaint'') (JStr [])),
              (''age'', js_or (jsget state ''age'') (JNum 0)),
              (''sex'', js_or (jsget state ''sex'') (JStr [])),
              (''severity'', js_or (jsget state ''severity'') (JNum 0)),
              (''onset'', jsget state ''onset''),
              (''location'', jsget state ''location''),
              (''duration'', jsget state ''duration''),
              (''shortnessOfBreath'',
                 js_or (js_or (jsget state ''shortnessOfBreath'') (jsget state ''troubleBreathing''))
                       (JBool False))]
             @ map (\<lambda>k. (k, js_or (jsget state k) (JBool False))) answers_false_defaults)"

text \<open>
  \<^verbatim>\<open>buildAnswersFromState\<close>: the listed properties, then \<^verbatim>\<open>...state\<close>, whose own
  properties replace the listed ones of the same name.
\<close>

definition buildAnswersFromState :: "jsobj \<Rightarrow> jsobj" where
  "buildAnswersFromState state = answers_listed state ++ state"

datatype Category = GREEN | AMBER | RED

text \<open>\<^verbatim>\<open>triageResult.riskBand.toUpperCase()\<close>\<close>

fun category_of :: "RiskBand \<Rightarrow> Category" where
  "category_of Red = RED"
| "category_of Amber = AMBER"
| "category_of Green = GREEN"

text \<open>
  The fields of the handoff that the claims concern; the narrative fields written by the
  generation call are kept as the reply gave them.
\<close>

record Narrative =
  n_ai_suggested_category :: Category
  n_ai_confidence :: string
  n_summary_for_reception :: string

record HandoffJson =
  rules_engine_category :: Category
  ai_suggested_category :: Category
  ai_confidence :: string
  red_flags_triggered :: "(string \<times> string) list"
  red_flags_not_triggered :: "string list"
  red_flags_not_assessed :: "string list"
  summary_for_reception :: string

definition createMinimalHandoff ::
  "jsobj \<Rightarrow> TriageResult \<Rightarrow> TriggeredFlag list \<Rightarrow> string list \<Rightarrow> string list \<Rightarrow> HandoffJson" where
  "createMinimalHandoff state triageResult triggeredRedFlags notTriggered' notAssessed' =
     \<lparr> rules_engine_category = category_of (riskBand triageResult),
       ai_suggested_category = category_of (riskBand triageResult),
       ai_confidence = ''LOW'',
       red_flags_triggered = map (\<lambda>rf. (t_label rf, t_evidence rf)) triggeredRedFlags,
       red_flags_not_triggered = notTriggered',
       red_flags_not_assessed = notAssessed',
       summary_for_reception = summary triageResult \<rparr>"

text \<open>
  \<^verbatim>\<open>generateHandoff\<close>. The generation call (with the retrieval that feeds its prompt) is a
  parameter: from the state, the triggered flags, the not-assessed labels and the rules-engine
  category it yields the narrative, or \<open>None\<close> when the call, \<^verbatim>\<open>JSON.parse\<close> or one of
  the assignments into the parsed reply throws.
\<close>

type_synonym narrator =
  "jsobj \<Rightarrow> TriggeredFlag list \<Rightarrow> string list \<Rightarrow> Category \<Rightarrow> Narrative option"

definition generateHandoff ::
  "narrator \<Rightarrow> int \<Rightarrow> jsobj \<Rightarrow> ChatMessage list \<Rightarrow> TriggeredFlag list \<Rightarrow> string list \<Rightarrow> string list
     \<Rightarrow> HandoffJson" where
  "generateHandoff narrate sessionId state messages triggeredRedFlags notTriggered' notAssessed' =
    (let answers = buildAnswersFromState state;
         triageResult = evaluateTriage answers;
         rulesSeverity = category_of (riskBand triageResult)
     in case narrate state triggeredRedFlags notAssessed' rulesSeverity of
          Some handoff \<Rightarrow>
            \<lparr> rules_engine_category = rulesSeverity,
              ai_suggested_category = n_ai_suggested_category handoff,
              ai_confidence = n_ai_confidence handoff,
              red_flags_triggered = map (\<lambda>rf. (t_label rf, t_evidence rf)) triggeredRedFlags,
              red_flags_not_triggered = notTriggered',
              red_flags_not_assessed = notAssessed',
              summary_for_reception = n_summary_for_reception handoff \<rparr>
        | None \<Rightarrow>
            createMinimalHandoff state triageResult triggeredRedFlags notTriggered' notAssessed')"

section \<open>The chat message route (routes.ts)\<close>

datatype Status = Active | Completed | Escalated_status

record ChatSession =
  s_messages :: "ChatMessage list"
  s_state :: jsobj
  s_stage :: Stage
  s_status :: Status
  s_retryCount :: int

text \<open>The collaborators of a turn: the three generation calls, the question of
  \<^verbatim>\<open>generateRAGQuestion\<close> (with the chunk lookup before it) and the red-flag rule table.\<close>

record Collaborators =
  c_generator :: generator
  c_rag_question :: "jsobj \<Rightarrow> string option"
  c_extraction :: "string \<Rightarrow> jsobj \<Rightarrow> ExtractionResult option"
  c_narrator :: narrator
  c_rules :: "RedFlagRule list"

text \<open>What the route stores of a completed session: the submission's band and flags, and the
  handoff.\<close>

record Submission =
  sub_riskBand :: RiskBand
  sub_redFlags :: "string list"

record MessageOutcome =
  out_session :: ChatSession
  out_submission :: "Submission option"
  out_handoff :: "HandoffJson option"

text \<open>The block \<^verbatim>\<open>if (result.newStage === "rag_followup" && result.response === "")\<close>.\<close>

definition rag_followup_question :: "Collaborators \<Rightarrow> TurnResult \<Rightarrow> TurnResult" where
  "rag_followup_question env result =
    (if newStage result = Rag_followup \<and> response result = [] then
       (case c_rag_question env (newState result) of
          Some ragQuestion \<Rightarrow>
            if ragQuestion \<noteq> [] then result\<lparr> response := ragQuestion \<rparr>
            else result\<lparr> newStage := Context_conditions,
                   response := question (getNextQuestion (newState result) Context_conditions) \<rparr>
        | None \<Rightarrow>
            result\<lparr> newStage := Context_conditions,
              response := question (getNextQuestion (newState result) Context_conditions) \<rparr>)
     else result)"

text \<open>
  \<^verbatim>\<open>POST /api/chat/message\<close> on a stored session; \<open>None\<close> is a rejected request
  (\<^verbatim>\<open>!sessionId || !message\<close>, or a session that is no longer active).
\<close>

definition chat_message :: "Collaborators \<Rightarrow> int \<Rightarrow> string \<Rightarrow> ChatSession \<Rightarrow> MessageOutcome option" where
  "chat_message env sessionId message session =
    (if sessionId = 0 \<or> message = [] then None
     else if s_status session \<noteq> Active then None
     else
       (let currentMessages = s_messages session @ [\<lparr> role = User, content = message \<rparr>];
            currentState = s_state session;
            currentStage = s_stage session;
            currentRetryCount = s_retryCount session;
            result = processUserMessage (c_generator env) message currentMessages currentState
                       currentStage currentRetryCount;
            result = rag_followup_question env result;
            currentMessages = (if response result \<noteq> []
                               then currentMessages @ [\<lparr> role = Assistant, content = response result \<rparr>]
                               else currentMessages);
            newStatus = (if isEscalation result then Escalated_status
                         else if isComplete result then Completed else Active);
            session' = \<lparr> s_messages = currentMessages, s_state = newState result,
                          s_stage = newStage result, s_status = newStatus,
                          s_retryCount = newRetryCount result \<rparr>
        in if isComplete result then
             (let triageResult = buildTriageFromChat (newState result);
                  riskBand' = (if isEscalation result then Red else riskBand triageResult);
                  redFlags' = (if isEscalation result
                               then redFlags triageResult @ [''Emergency escalation triggered'']
                               else redFlags triageResult);
                  facts = fst (extractFactsFromMessages (c_extraction env) currentMessages
                                 (newState result) (Some sessionId));
                  redFlagResults = evaluateRedFlags (c_rules env) facts;
                  handoff = generateHandoff (c_narrator env) sessionId (newState result) currentMessages
                              (triggered redFlagResults) (notTriggered redFlagResults)
                              (notAssessed redFlagResults)
              in Some \<lparr> out_session = session',
                        out_submission = Some \<lparr> sub_riskBand = riskBand', sub_redFlags = redFlags' \<rparr>,
                        out_handoff = Some handoff \<rparr>)
           else Some \<lparr> out_session = session', out_submission = None, out_handoff = None \<rparr>))"

text \<open>A conversation: the messages are sent one after the other to the same session.\<close>

fun chat_messages :: "Collaborators \<Rightarrow> int \<Rightarrow> string list \<Rightarrow> ChatSession \<Rightarrow> ChatSession option" where
  "chat_messages env sessionId [] session = Some session"
| "chat_messages env sessionId (message # rest) session =
     (case chat_message env sessionId message session of
        None \<Rightarrow> None
      | Some out \<Rightarrow> chat_messages env sessionId rest (out_session out))"

section \<open>Auxiliary notions and example data\<close>

text \<open>No property of the object holds \<^verbatim>\<open>undefined\<close> or \<^verbatim>\<open>null\<close>.\<close>

definition no_nullish :: "jsobj \<Rightarrow> bool" where
  "no_nullish m = (\<forall>k v. m k = Some v \<longrightarrow> \<not> nullish v)"

text \<open>A one-rule table: pain score of at least 8.\<close>

definition ex_rule :: RedFlagRule where
  "ex_rule = \<lparr> code = ''RF_SEVERE_PAIN'', label = ''Severe pain'', evidence_prompt = ''Pain score'',
      criteria_all = Some [\<lparr> c_fact = ''severity_score'', c_op = ''gte'', c_value = JNum 8 \<rparr>],
      criteria_any = None \<rparr>"

text \<open>A session whose stored severity is 3 while the patient text mentions 7.\<close>

definition ex_state :: jsobj where
  "ex_state = [''severity'' \<mapsto> JNum 3]"

definition ex_messages :: "ChatMessage list" where
  "ex_messages = [\<lparr> role = Assistant, content = ''How severe is it?'' \<rparr>,
                  \<lparr> role = User, content = ''my pain is 7'' \<rparr>]"

definition ex_item :: ExtractedFact where
  "ex_item = \<lparr> f_key = ''severity_score'', f_value = JNum 7, f_confidence = 90 \<rparr>"

definition ex_reply :: ExtractionResult where
  "ex_reply = \<lparr> r_facts = Some [ex_item], r_negations = None \<rparr>"

text \<open>Negations of the critical key \<^verbatim>\<open>fever\<close> with confidence 60 and 75.\<close>

definition ex_neg_low :: ExtractedFact where
  "ex_neg_low = \<lparr> f_key = ''fever'', f_value = JBool False, f_confidence = 60 \<rparr>"

definition ex_neg_high :: ExtractedFact where
  "ex_neg_high = \<lparr> f_key = ''fever'', f_value = JBool False, f_confidence = 75 \<rparr>"

definition ex_neg_messages :: "ChatMessage list" where
  "ex_neg_messages = [\<lparr> role = User, content = ''no fever at all'' \<rparr>]"

text \<open>Collaborators that are all down: every generation call throws, no follow-up question,
  an empty rule table.\<close>

definition no_generator :: generator where
  "no_generator = (\<lambda>userInput history state stage. Threw)"

definition offline :: Collaborators where
  "offline = \<lparr> c_generator = no_generator, c_rag_question = (\<lambda>state. None),
               c_extraction = (\<lambda>patientMessages deterministic. None),
               c_narrator = (\<lambda>state flags labels category. None), c_rules = [] \<rparr>"

text \<open>A session as \<^verbatim>\<open>/api/chat/start\<close> creates it.\<close>

definition fresh_session :: ChatSession where
  "fresh_session =
     \<lparr> s_messages = [\<lparr> role = Assistant, content = question (getNextQuestion Map.empty Opening) \<rparr>],
       s_state = Map.empty, s_stage = Opening, s_status = Active, s_retryCount = 0 \<rparr>"

text \<open>A session that has reached name collection with a headache as its complaint.\<close>

definition ex_name_session :: ChatSession where
  "ex_name_session =
     \<lparr> s_messages = [], s_state = [''complaint'' \<mapsto> JStr ''headache'', ''severity'' \<mapsto> JNum 4],
       s_stage = Collect_name, s_status = Active, s_retryCount = 0 \<rparr>"




text \<open>The fields the complaint-specific questions write, and all fields the interview writes.\<close>

definition red_flag_fields :: "string list" where
  "red_flag_fields =
    [''radiatingPain'', ''sweating'', ''nausea'', ''wheezing'', ''coughingBlood'', ''chestPain'',
     ''vomitingBlood'', ''bloodyStools'', ''worseWithMovement'', ''feverWithPain'', ''pregnancy'',
     ''thunderclap'', ''neckStiffness'', ''visualDisturbance'', ''neurologicalSymptoms'',
     ''photophobia'', ''nonBlanchingRash'', ''canKeepFluids'']"

definition chat_fields :: "string list" where
  "chat_fields =
    [''complaint'', ''openingDescription'', ''location'', ''onset'', ''timeTrend'', ''gettingWorse'',
     ''severity'', ''troubleBreathing'', ''collapse'', ''severePain'', ''severeBleeding'',
     ''confusion'', ''ragQuestionsAsked'', ''medicalHistory'', ''medications'', ''previousSurgery'',
     ''canEatDrink'', ''canMove'', ''stoppingActivities'', ''patientName'']
    @ red_flag_fields"

text \<open>A property name that is no field of the interview and no \<^verbatim>\<open>ragAnswer\<close> entry.\<close>

definition outside :: "string \<Rightarrow> bool" where
  "outside k = (k \<notin> set chat_fields \<and> \<not> startsWith k ''ragAnswer'')"

text \<open>
  What every session of the chat route satisfies: no \<^verbatim>\<open>bleeding\<close> and no
  \<^verbatim>\<open>shortnessOfBreath\<close> property, and \<^verbatim>\<open>troubleBreathing\<close> true only after an escalation.
\<close>

definition route_inv :: "ChatSession \<Rightarrow> bool" where
  "route_inv s =
     (s_state s ''bleeding'' = None \<and> s_state s ''shortnessOfBreath'' = None
      \<and> (s_status s = Escalated_status \<or> s_state s ''troubleBreathing'' = None
           \<or> s_state s ''troubleBreathing'' = Some (JBool False)))"

section \<open>Properties of the rules engine\<close>

lemma redFlags_evaluateTriage: "redFlags (evaluateTriage a) = collect_flags a"
  by (simp add: evaluateTriage_def Let_def)

lemma riskBand_by_flags:
  "riskBand (evaluateTriage a) =
     (if collect_flags a \<noteq> [] then Red
      else if js_ge (jsget a ''severity'') (JNum 6) \<or> js_gt (jsget a ''age'') (JNum 75) then Amber
      else Green)"
  by (simp add: evaluateTriage_def Let_def)

lemma js_ge_num: "js_ge (JNum x) (JNum y) = (y \<le> x)"
  by (simp add: js_ge_def)

lemma js_gt_num: "js_gt (JNum x) (JNum y) = (y < x)"
  by (simp add: js_gt_def)


section \<open>Properties of the red-flag evaluator\<close>

lemma red_flag_loop_lists:
  "triggered (red_flag_loop facts rules acc) =
     triggered acc @ map as_triggered (filter (rule_matches facts) rules)
   \<and> notTriggered (red_flag_loop facts rules acc) =
     notTriggered acc @ map label (filter (\<lambda>r. \<not> rule_matches facts r \<and> hasFacts facts r) rules)
   \<and> notAssessed (red_flag_loop facts rules acc) =
     notAssessed acc @ map label (filter (\<lambda>r. \<not> rule_matches facts r \<and> \<not> hasFacts facts r) rules)"
  by (induction rules arbitrary: acc) auto

lemma three_way_length:
  "length (filter P xs) + length (filter (\<lambda>r. \<not> P r \<and> Q r) xs)
     + length (filter (\<lambda>r. \<not> P r \<and> \<not> Q r) xs) = length xs"
  by (induction xs) auto

lemma hasFacts_iff: "hasFacts facts rule = (set (requiredFacts rule) \<inter> dom facts \<noteq> {})"
  by (auto simp: hasFacts_def list_ex_iff dom_def)

lemma eval_criterion_non_numeric:
  "\<not> is_number (jsget facts (c_fact c)) \<Longrightarrow> c_op c = ''gte'' \<or> c_op c = ''lte''
     \<Longrightarrow> \<not> eval_criterion facts c"
  by (auto simp: eval_criterion_def Let_def)

text \<open>
  Claim C8 (red-flag trichotomy). For every rule table and fact record, the three result
  lists partition the table in table order: \<open>triggered\<close> holds the rules that match,
  \<open>notTriggered\<close> the labels of the rules that do not match and reference at least one key
  of the record, \<open>notAssessed\<close> the labels of the rules that do not match and reference no
  key of the record; so the three lengths add up to the length of the table. A \<^verbatim>\<open>gte\<close> or
  \<^verbatim>\<open>lte\<close> criterion on a fact value that is not a number is false.
\<close>

theorem evaluateRedFlags_trichotomy:
  "triggered (evaluateRedFlags rules facts) = map as_triggered (filter (rule_matches facts) rules)
   \<and> notTriggered (evaluateRedFlags rules facts) =
       map label (filter (\<lambda>r. \<not> rule_matches facts r \<and> set (requiredFacts r) \<inter> dom facts \<noteq> {}) rules)
   \<and> notAssessed (evaluateRedFlags rules facts) =
       map label (filter (\<lambda>r. \<not> rule_matches facts r \<and> set (requiredFacts r) \<inter> dom facts = {}) rules)
   \<and> length (triggered (evaluateRedFlags rules facts))
       + length (notTriggered (evaluateRedFlags rules facts))
       + length (notAssessed (evaluateRedFlags rules facts)) = length rules
   \<and> ((c_op c = ''gte'' \<or> c_op c = ''lte'') \<and> \<not> is_number (jsget facts (c_fact c))
        \<longrightarrow> \<not> eval_criterion facts c)"
proof -
  have l: "\<And>r. hasFacts facts r = (set (requiredFacts r) \<inter> dom facts \<noteq> {})"
    by (rule hasFacts_iff)
  show ?thesis
    unfolding evaluateRedFlags_def
    using three_way_length [of "rule_matches facts" rules "hasFacts facts"]
      eval_criterion_non_numeric [of facts c]
    by (simp add: red_flag_loop_lists l)
qed

theorem evaluateRedFlags_trichotomy_witness:
  "notTriggered (evaluateRedFlags [ex_rule] [''severity_score'' \<mapsto> JStr ''9'']) = [''Severe pain'']
   \<and> triggered (evaluateRedFlags [ex_rule] [''severity_score'' \<mapsto> JStr ''9'']) = []
   \<and> notAssessed (evaluateRedFlags [ex_rule] [''severity_score'' \<mapsto> JStr ''9'']) = []
   \<and> \<not> eval_criterion [''severity_score'' \<mapsto> JStr ''9'']
         \<lparr> c_fact = ''severity_score'', c_op = ''gte'', c_value = JNum 8 \<rparr>"
  using evaluateRedFlags_trichotomy
    [of "[ex_rule]" "[''severity_score'' \<mapsto> JStr ''9'']"
        "\<lparr> c_fact = ''severity_score'', c_op = ''gte'', c_value = JNum 8 \<rparr>"]
  by (simp add: ex_rule_def rule_matches_def eval_criterion_def requiredFacts_def jsget_def
        as_triggered_def)

section \<open>Properties of fact reconciliation\<close>

lemmas str_defs = toLowerCase_def is_upper_def is_space_def is_digit_def is_word_def trim_def
  string_of_int_def string_of_nat.simps digit_char_def digit_val_def digits_to_nat_def

lemmas det_defs = deterministicFactsFromState_def copy_field_def copy_opening_def
  copy_breathing_def jsget_def js_coalesce_def Let_def

lemmas gate_defs = passes_gates_def threshold_def CRITICAL_FACT_KEYS_def CONFIDENCE_CRITICAL_def
  CONFIDENCE_DEFAULT_def foundInConversation_def score_tail_def ends_word_def

lemmas ex_defs = ex_state_def ex_messages_def ex_item_def ex_reply_def ex_neg_low_def
  ex_neg_high_def ex_neg_messages_def

lemma no_nullish_copy_field: "no_nullish m \<Longrightarrow> no_nullish (copy_field state src dst m)"
  by (simp add: no_nullish_def copy_field_def)

lemma no_nullish_copy_opening: "no_nullish m \<Longrightarrow> no_nullish (copy_opening state m)"
  by (simp add: no_nullish_def copy_opening_def)

lemma no_nullish_copy_breathing: "no_nullish m \<Longrightarrow> no_nullish (copy_breathing state m)"
  by (auto simp: no_nullish_def copy_breathing_def js_coalesce_def)

lemma no_nullish_deterministic: "no_nullish (deterministicFactsFromState state)"
  unfolding deterministicFactsFromState_def Let_def
  by (intro no_nullish_copy_field no_nullish_copy_opening no_nullish_copy_breathing)
     (simp add: no_nullish_def)

lemma deterministic_defined:
  "deterministicFactsFromState state k = Some d \<Longrightarrow> d \<noteq> JUndefined"
  using no_nullish_deterministic [of state] unfolding no_nullish_def
  by (metis nullish.simps(1))

lemma facts_loop_events:
  "snd (facts_loop pm det sid fs (facts, evs)) =
     evs @ map (divergence_of sid det) (filter (\<lambda>f. passes_gates pm f \<and> diverges det f) fs)"
  by (induction fs arbitrary: facts evs) auto

lemma facts_loop_lookup:
  "fst (facts_loop pm det sid fs (facts, evs)) k =
     (case filter (\<lambda>g. f_key g = k \<and> passes_gates pm g) fs of
        [] \<Rightarrow> facts k
      | g # gs \<Rightarrow> Some (f_value (last (g # gs))))"
proof (induction fs arbitrary: facts evs)
  case Nil
  then show ?case by simp
next
  case (Cons a fs)
  show ?case
  proof (cases "passes_gates pm a")
    case False
    then show ?thesis using Cons.IH [of facts evs] by simp
  next
    case True
    define evs' where "evs' = (if diverges det a then evs @ [divergence_of sid det a] else evs)"
    define facts' where "facts' = facts(f_key a \<mapsto> f_value a)"
    have step: "facts_loop pm det sid (a # fs) (facts, evs) = facts_loop pm det sid fs (facts', evs')"
      using True by (simp add: evs'_def facts'_def)
    have upd: "facts' k = (if f_key a = k then Some (f_value a) else facts k)"
      by (simp add: facts'_def)
    show ?thesis
      unfolding step Cons.IH [of facts' evs'] upd
      using True by (simp split: list.splits)
  qed
qed

lemma negations_loop_lookup:
  "negations_loop ns facts k =
     (if list_ex (\<lambda>n. f_key n = k \<and> \<not> f_confidence n < threshold (f_key n)) ns
      then Some (JBool False) else facts k)"
  by (induction ns arbitrary: facts) auto

lemma filter_key_passes:
  assumes "filter (\<lambda>g. f_key g = k) fs = [item]" and "passes_gates pm item"
  shows "filter (\<lambda>g. f_key g = k \<and> passes_gates pm g) fs = [item]"
proof -
  have "filter (\<lambda>g. f_key g = k \<and> passes_gates pm g) fs
        = filter (passes_gates pm) (filter (\<lambda>g. f_key g = k) fs)"
    by (simp add: conj_commute)
  then show ?thesis using assms by simp
qed

lemma filter_key_item: "filter (\<lambda>g. f_key g = k) fs = [item] \<Longrightarrow> f_key item = k"
proof -
  assume "filter (\<lambda>g. f_key g = k) fs = [item]"
  then have "item \<in> set (filter (\<lambda>g. f_key g = k) fs)" by simp
  then show ?thesis by simp
qed

text \<open>
  Claim C1, as the code has it. The claim says the deterministic value stays in the record;
  the facts loop assigns \<^verbatim>\<open>facts[fact.key] = fact.value\<close> for every admitted fact,
  after the divergence callback. At the session of \<open>ex_state\<close> the stored severity 3 is
  replaced by the extracted 7, although the fact passes both gates and the deterministic
  projection holds 3.
\<close>

theorem extractFacts_llm_value_replaces_counterexample:
  "passes_gates (patient_text ex_messages) ex_item
   \<and> deterministicFactsFromState ex_state ''severity_score'' = Some (JNum 3)
   \<and> fst (extractFactsFromMessages (\<lambda>pm det. Some ex_reply) ex_messages ex_state (Some 1))
         ''severity_score'' = Some (JNum 7)
   \<and> fst (extractFactsFromMessages (\<lambda>pm det. Some ex_reply) ex_messages ex_state (Some 1))
         ''severity_score'' \<noteq> deterministicFactsFromState ex_state ''severity_score''"
  by (simp add: ex_defs patient_text_def gate_defs str_defs det_defs extractFactsFromMessages_def)

text \<open>
  Claim C1, amended. When the patient text is not blank and the extraction call returns a reply
  whose fact list holds exactly one fact for key \<open>k\<close>, that fact passes the confidence and
  corroboration gates, the deterministic projection holds a different value \<open>d\<close> for \<open>k\<close>,
  and no negation for \<open>k\<close> reaches its threshold, then exactly one divergence event is emitted
  for \<open>k\<close> (session id, key, extracted value, deterministic value \<open>d\<close>) and the returned
  record holds the extracted value for \<open>k\<close>.
\<close>

theorem extractFacts_divergence:
  assumes "trim (patient_text messages) \<noteq> []"
    and "llm (patient_text messages) (deterministicFactsFromState st) = Some r"
    and "r_facts r = Some fs"
    and "filter (\<lambda>g. f_key g = k) fs = [item]"
    and "passes_gates (patient_text messages) item"
    and "deterministicFactsFromState st k = Some d"
    and "d \<noteq> f_value item"
    and "list_all (\<lambda>n. f_key n \<noteq> k \<or> f_confidence n < threshold (f_key n))
           (case r_negations r of Some ns \<Rightarrow> ns | None \<Rightarrow> [])"
  shows "fst (extractFactsFromMessages llm messages st sid) k = Some (f_value item)
       \<and> filter (\<lambda>e. d_key e = k) (snd (extractFactsFromMessages llm messages st sid))
           = [\<lparr> d_session = sid, d_key = k, d_llm = f_value item, d_state = d \<rparr>]"
proof -
  let ?pm = "patient_text messages"
  let ?det = "deterministicFactsFromState st"
  have key: "f_key item = k" using assms(4) by (rule filter_key_item)
  have dv: "diverges ?det item"
    using assms(6,7) deterministic_defined [OF assms(6)] key
    by (simp add: diverges_def jsget_def)
  have adm: "filter (\<lambda>g. f_key g = k \<and> passes_gates ?pm g) fs = [item]"
    using assms(4,5) by (rule filter_key_passes)
  have noneg: "\<And>ns. r_negations r = Some ns \<Longrightarrow>
      \<not> list_ex (\<lambda>n. f_key n = k \<and> \<not> f_confidence n < threshold (f_key n)) ns"
    using assms(8) by (auto simp: list_all_iff list_ex_iff)
  have ev1: "filter (\<lambda>e. d_key e = k)
        (map (divergence_of sid ?det) (filter (\<lambda>f. passes_gates ?pm f \<and> diverges ?det f) fs))
      = map (divergence_of sid ?det)
          (filter (\<lambda>f. diverges ?det f) (filter (\<lambda>g. f_key g = k \<and> passes_gates ?pm g) fs))"
    by (induction fs) (auto simp: divergence_of_def)
  have ev: "filter (\<lambda>e. d_key e = k)
        (map (divergence_of sid ?det) (filter (\<lambda>f. passes_gates ?pm f \<and> diverges ?det f) fs))
      = [\<lparr> d_session = sid, d_key = k, d_llm = f_value item, d_state = d \<rparr>]"
    unfolding ev1 adm using dv key assms(6) by (simp add: divergence_of_def jsget_def)
  have val: "\<And>facts evs. fst (facts_loop ?pm ?det sid fs (facts, evs)) k = Some (f_value item)"
    by (simp add: facts_loop_lookup adm)
  show ?thesis
    using assms(1,2,3) val ev noneg
    by (simp add: extractFactsFromMessages_def Let_def split_def facts_loop_events
          negations_loop_lookup split: option.splits)
qed

lemma ex_text_not_blank: "trim (patient_text ex_messages) \<noteq> []"
  by (simp add: ex_defs patient_text_def str_defs)

lemma ex_deterministic_severity:
  "deterministicFactsFromState ex_state ''severity_score'' = Some (JNum 3)"
  by (simp add: ex_defs det_defs)

lemma ex_item_passes: "passes_gates (patient_text ex_messages) ex_item"
  by (simp add: ex_defs patient_text_def gate_defs str_defs)

theorem extractFacts_divergence_witness:
  "fst (extractFactsFromMessages (\<lambda>pm det. Some ex_reply) ex_messages ex_state (Some 1))
       ''severity_score'' = Some (JNum 7)
   \<and> filter (\<lambda>e. d_key e = ''severity_score'')
        (snd (extractFactsFromMessages (\<lambda>pm det. Some ex_reply) ex_messages ex_state (Some 1)))
      = [\<lparr> d_session = Some 1, d_key = ''severity_score'', d_llm = JNum 7, d_state = JNum 3 \<rparr>]"
proof -
  have h3: "r_facts ex_reply = Some [ex_item]" by (simp add: ex_reply_def)
  have h4: "filter (\<lambda>g. f_key g = ''severity_score'') [ex_item] = [ex_item]"
    by (simp add: ex_item_def)
  have h7: "JNum 3 \<noteq> f_value ex_item" by (simp add: ex_item_def)
  have h8: "list_all (\<lambda>n. f_key n \<noteq> ''severity_score'' \<or> f_confidence n < threshold (f_key n))
           (case r_negations ex_reply of Some ns \<Rightarrow> ns | None \<Rightarrow> [])"
    by (simp add: ex_reply_def)
  show ?thesis
    using extractFacts_divergence [where llm = "\<lambda>pm det. Some ex_reply" and sid = "Some 1",
        OF ex_text_not_blank refl h3 h4 ex_item_passes ex_deterministic_severity h7 h8]
    by (simp add: ex_item_def)
qed

text \<open>
  Claim C7, as the code has it. The claim gates every negation at the default threshold 50;
  the negations loop takes the threshold of the key, 70 for a critical key. A negation of
  \<^verbatim>\<open>fever\<close> with confidence 60 is at or above 50 and is skipped: the record has no
  \<^verbatim>\<open>fever\<close> entry.
\<close>

theorem extractFacts_negation_critical_counterexample:
  "CONFIDENCE_DEFAULT \<le> f_confidence ex_neg_low
   \<and> f_key ex_neg_low \<in> set CRITICAL_FACT_KEYS
   \<and> fst (extractFactsFromMessages
            (\<lambda>pm det. Some \<lparr> r_facts = None, r_negations = Some [ex_neg_low] \<rparr>)
            ex_neg_messages Map.empty None) (f_key ex_neg_low) = None"
  by (simp add: ex_defs patient_text_def gate_defs str_defs det_defs extractFactsFromMessages_def)

text \<open>
  Claim C7, amended. When the patient text is not blank and the extraction call returns a reply,
  every negation of that reply whose confidence is at or above the threshold of its key
  (70 for a key of the critical-fact set, 50 otherwise) sets that key to \<^verbatim>\<open>false\<close> in the
  returned record.
\<close>

theorem extractFacts_negation:
  assumes "trim (patient_text messages) \<noteq> []"
    and "llm (patient_text messages) (deterministicFactsFromState st) = Some r"
    and "r_negations r = Some ns"
    and "neg \<in> set ns"
    and "threshold (f_key neg) \<le> f_confidence neg"
  shows "fst (extractFactsFromMessages llm messages st sid) (f_key neg) = Some (JBool False)"
proof -
  have "list_ex (\<lambda>n. f_key n = f_key neg \<and> \<not> f_confidence n < threshold (f_key n)) ns"
    using assms(4,5) by (auto simp: list_ex_iff)
  then show ?thesis
    using assms(1,2,3)
    by (simp add: extractFactsFromMessages_def Let_def split_def negations_loop_lookup
          split: option.splits)
qed


lemma ex_neg_text_not_blank: "trim (patient_text ex_neg_messages) \<noteq> []"
  by (simp add: ex_defs patient_text_def str_defs)

theorem extractFacts_negation_witness:
  "fst (extractFactsFromMessages
          (\<lambda>pm det. Some \<lparr> r_facts = None, r_negations = Some [ex_neg_high] \<rparr>)
          ex_neg_messages Map.empty None) ''fever'' = Some (JBool False)"
proof -
  have h3: "r_negations \<lparr> r_facts = None, r_negations = Some [ex_neg_high] \<rparr> = Some [ex_neg_high]"
    by simp
  have h4: "ex_neg_high \<in> set [ex_neg_high]" by simp
  have h5: "threshold (f_key ex_neg_high) \<le> f_confidence ex_neg_high"
    by (simp add: ex_defs gate_defs)
  show ?thesis
    using extractFacts_negation
      [where llm = "\<lambda>pm det. Some \<lparr> r_facts = None, r_negations = Some [ex_neg_high] \<rparr>"
         and sid = None and st = Map.empty, OF ex_neg_text_not_blank refl h3 h4 h5]
    by (simp add: ex_neg_high_def)
qed

section \<open>Properties of the dialogue state machine\<close>

lemmas chat_defs = processUserMessage_def checkEmergencySigns_def emergencyKeywords_def
  forced_stages_def maxRetries_def turn_def escalate_def parseYesNo_def matches_word_def
  yesWords_def noWords_def parseNumber_def parseComplaint_def COMPLAINTS_def

text \<open>
  Claim C3 (escalation precedence). Whenever the raw input matches an emergency keyword,
  whatever the generator, history, state, stage and retry count are, the turn returns stage
  \<^verbatim>\<open>escalated\<close> with \<^verbatim>\<open>isEscalation\<close> and \<^verbatim>\<open>isComplete\<close> true and the state it was
  given.
\<close>

theorem escalation_precedence:
  assumes "checkEmergencySigns input"
  shows "newStage (processUserMessage gen input history st sg rc) = Escalated
       \<and> isEscalation (processUserMessage gen input history st sg rc)
       \<and> isComplete (processUserMessage gen input history st sg rc)
       \<and> newState (processUserMessage gen input history st sg rc) = st"
  using assms by (simp add: processUserMessage_def escalate_def)

theorem escalation_precedence_witness:
  "newStage (processUserMessage no_generator ''I can't breathe'' [] Map.empty Opening 0) = Escalated
   \<and> isEscalation (processUserMessage no_generator ''I can't breathe'' [] Map.empty Opening 0)
   \<and> isComplete (processUserMessage no_generator ''I can't breathe'' [] Map.empty Opening 0)
   \<and> newState (processUserMessage no_generator ''I can't breathe'' [] Map.empty Opening 0) = Map.empty"
proof -
  have h: "checkEmergencySigns ''I can't breathe''"
    by (simp add: chat_defs str_defs)
  show ?thesis
    using escalation_precedence [OF h, of no_generator "[]" Map.empty Opening 0] by simp
qed

text \<open>
  Claim C5, as the code has it. The keyword list of \<^verbatim>\<open>checkEmergencySigns\<close> is not the
  list of the claim: \<^verbatim>\<open>"purple rash"\<close> stands for the claim's purple non-blanching rash,
  so an input with the claim's wording does not fire, and the list has variants the claim
  lacks (\<^verbatim>\<open>"confused"\<close> beside \<^verbatim>\<open>"confusion"\<close>), so an input with none of the claim's
  keywords fires.
\<close>

theorem emergency_keywords_counterexample:
  "\<not> checkEmergencySigns ''I have a purple non-blanching rash''
   \<and> checkEmergencySigns ''I feel confused''
   \<and> \<not> list_ex (\<lambda>keyword. str_includes (toLowerCase ''I feel confused'') keyword)
         [''severe chest pain'', ''can't breathe'', ''blue lips'', ''collapsed'', ''fainting'',
          ''confusion'', ''seizure'', ''worst headache'', ''stiff neck'', ''fever'',
          ''purple non-blanching rash'', ''heavy bleeding'', ''unconscious'']"
  by (simp add: chat_defs str_defs)

text \<open>
  Claim C5, amended. For every input whose lower-cased text mentions neither fever nor a
  stiff neck, the emergency short-circuit fires exactly when that text contains one of the
  keywords severe chest pain, severe breathing, can't breathe, blue lips, collapsed, fainted,
  fainting, confusion, confused, seizure, worst headache, purple rash, heavy bleeding,
  bleeding heavily, unconscious, not responding; and whenever the short-circuit fires, the
  turn is the escalation, at every stage and retry count.
\<close>

theorem emergency_keywords:
  "(\<not> str_includes (toLowerCase input) ''fever'' \<and> \<not> str_includes (toLowerCase input) ''stiff neck''
      \<longrightarrow> checkEmergencySigns input =
            list_ex (\<lambda>keyword. str_includes (toLowerCase input) keyword)
              [''severe chest pain'', ''severe breathing'', ''can't breathe'', ''blue lips'',
               ''collapsed'', ''fainted'', ''fainting'', ''confusion'', ''confused'', ''seizure'',
               ''worst headache'', ''purple rash'', ''heavy bleeding'', ''bleeding heavily'',
               ''unconscious'', ''not responding''])
   \<and> (checkEmergencySigns input \<longrightarrow>
         processUserMessage gen input history st sg rc = escalate st)"
  by (auto simp: checkEmergencySigns_def emergencyKeywords_def processUserMessage_def Let_def)

theorem emergency_keywords_witness:
  "checkEmergencySigns ''He is not responding''
   \<and> \<not> checkEmergencySigns ''my knee hurts''
   \<and> processUserMessage no_generator ''He is not responding'' [] Map.empty Severity 2
       = escalate Map.empty"
proof -
  have a: "\<not> str_includes (toLowerCase ''He is not responding'') ''fever''
      \<and> \<not> str_includes (toLowerCase ''He is not responding'') ''stiff neck''"
    by (simp add: str_defs)
  have b: "\<not> str_includes (toLowerCase ''my knee hurts'') ''fever''
      \<and> \<not> str_includes (toLowerCase ''my knee hurts'') ''stiff neck''"
    by (simp add: str_defs)
  have c: "list_ex (\<lambda>keyword. str_includes (toLowerCase ''He is not responding'') keyword)
              [''severe chest pain'', ''severe breathing'', ''can't breathe'', ''blue lips'',
               ''collapsed'', ''fainted'', ''fainting'', ''confusion'', ''confused'', ''seizure'',
               ''worst headache'', ''purple rash'', ''heavy bleeding'', ''bleeding heavily'',
               ''unconscious'', ''not responding'']"
    by (simp add: str_defs)
  have d: "\<not> list_ex (\<lambda>keyword. str_includes (toLowerCase ''my knee hurts'') keyword)
              [''severe chest pain'', ''severe breathing'', ''can't breathe'', ''blue lips'',
               ''collapsed'', ''fainted'', ''fainting'', ''confusion'', ''confused'', ''seizure'',
               ''worst headache'', ''purple rash'', ''heavy bleeding'', ''bleeding heavily'',
               ''unconscious'', ''not responding'']"
    by (simp add: str_defs)
  have e: "checkEmergencySigns ''He is not responding''"
    using emergency_keywords [of "''He is not responding''", THEN conjunct1] a c by blast
  have f: "\<not> checkEmergencySigns ''my knee hurts''"
    using emergency_keywords [of "''my knee hurts''", THEN conjunct1] b d by blast
  have g: "processUserMessage no_generator ''He is not responding'' [] Map.empty Severity 2
       = escalate Map.empty"
    using emergency_keywords [of "''He is not responding''" no_generator "[]" Map.empty Severity 2,
        THEN conjunct2] e by blast
  show ?thesis using e f g by simp
qed

text \<open>
  The keyword list holds \<^verbatim>\<open>"stiff neck"\<close> and \<^verbatim>\<open>"fever"\<close> as two separate entries,
  where the patient-facing prompt of the same file names stiff neck with fever as one
  warning sign. An input that mentions a fever, no stiff neck and no other keyword fires the
  short-circuit, at the opening stage as at any other, and its complaint, which
  \<^verbatim>\<open>parseComplaint\<close> would read as fever, is never parsed.
\<close>

lemma fever_alone_escalates:
  "\<not> str_includes (toLowerCase ''I have a fever'') ''stiff neck''
   \<and> filter (\<lambda>keyword. str_includes (toLowerCase ''I have a fever'') keyword) emergencyKeywords
       = [''fever'']
   \<and> checkEmergencySigns ''I have a fever''
   \<and> processUserMessage gen ''I have a fever'' history Map.empty Opening 0 = escalate Map.empty
   \<and> parseComplaint ''I have a fever'' = Some ''fever''"
  by (simp add: chat_defs str_defs)

lemma indexOf_nonneg: "x \<in> set ys \<Longrightarrow> 0 \<le> indexOf ys x"
  by (induction ys) (auto simp: Let_def)

lemma indexOf_nth:
  "distinct xs \<Longrightarrow> i < length xs \<Longrightarrow> indexOf xs (xs ! i) = int i"
proof (induction xs arbitrary: i)
  case Nil
  then show ?case by simp
next
  case (Cons y ys)
  show ?case
  proof (cases i)
    case 0
    then show ?thesis by simp
  next
    case (Suc j)
    then have j: "j < length ys" using Cons.prems by simp
    then have mem: "ys ! j \<in> set ys" by simp
    then have ne: "y \<noteq> ys ! j" using Cons.prems by auto
    have "indexOf ys (ys ! j) = int j" using Cons.IH [of j] Cons.prems j by simp
    then show ?thesis using Suc ne by (simp add: Let_def)
  qed
qed

lemma indexOf_forced:
  "i < length forced_stages \<Longrightarrow> indexOf forced_stages (forced_stages ! i) = int i"
  by (rule indexOf_nth) (simp_all add: forced_stages_def)

text \<open>
  Claim C6, as the code has it. At the summary stage, the last entry of the forced-advance
  array, the guard \<^verbatim>\<open>currentIndex < stages.length - 1\<close> fails: with a retry count of 3 an
  unparseable answer stays at \<^verbatim>\<open>summary\<close> and the retry count grows to 4, where the claim
  has a transition to the next stage and a reset to 0.
\<close>

theorem summary_not_forced_counterexample:
  "parseYesNo ''maybe'' = None
   \<and> \<not> checkEmergencySigns ''maybe''
   \<and> newStage (processUserMessage no_generator ''maybe'' [] Map.empty Summary 3) = Summary
   \<and> newRetryCount (processUserMessage no_generator ''maybe'' [] Map.empty Summary 3) = 4"
  by (simp add: chat_defs str_defs stage_summary_def)

text \<open>
  Claim C6, amended. For an input without emergency keyword: (1) at every stage of the
  forced-advance array but its last (opening to functional activities, without the RAG
  follow-up and the name collection), a retry count of 3 or more moves the turn to the next
  entry of the array, whatever the input, with the state unchanged, the question of the new
  stage as response and the retry count 0; (2) at the summary stage no advance is forced:
  an answer that is neither yes nor no stays at the summary and increments the retry count,
  whatever the count is; (3) at name collection with a retry count below 3, an input shorter
  than 2 characters after trimming stays at name collection with the state unchanged and
  increments the retry count.
\<close>

theorem forced_advance:
  "(i < length forced_stages - 1 \<and> \<not> checkEmergencySigns input \<and> 3 \<le> rc \<longrightarrow>
      processUserMessage gen input history st (forced_stages ! i) rc
        = turn st (forced_stages ! Suc i) (question (getNextQuestion st (forced_stages ! Suc i))) 0)
   \<and> (\<not> checkEmergencySigns input \<and> parseYesNo input = None \<longrightarrow>
      processUserMessage gen input history st Summary rc
        = turn st Summary ''Is the information correct? Please answer yes or no.'' (rc + 1))
   \<and> (\<not> checkEmergencySigns input \<and> rc < 3 \<and> length (trim input) < 2 \<longrightarrow>
      newState (processUserMessage gen input history st Collect_name rc) = st
      \<and> newStage (processUserMessage gen input history st Collect_name rc) = Collect_name
      \<and> newRetryCount (processUserMessage gen input history st Collect_name rc) = rc + 1)"
proof (intro conjI impI)
  assume a: "i < length forced_stages - 1 \<and> \<not> checkEmergencySigns input \<and> 3 \<le> rc"
  then have i: "i < length forced_stages" by linarith
  have idx: "indexOf forced_stages (forced_stages ! i) = int i"
    using i by (rule indexOf_forced)
  have lt: "int i < int (length forced_stages) - 1" using a by (simp add: forced_stages_def)
  have n: "nat (int i + 1) = Suc i" by simp
  show "processUserMessage gen input history st (forced_stages ! i) rc
        = turn st (forced_stages ! Suc i) (question (getNextQuestion st (forced_stages ! Suc i))) 0"
    using a lt unfolding processUserMessage_def Let_def idx maxRetries_def n by simp
next
  assume a: "\<not> checkEmergencySigns input \<and> parseYesNo input = None"
  have idx: "indexOf forced_stages Summary = 17" by (simp add: forced_stages_def)
  show "processUserMessage gen input history st Summary rc
        = turn st Summary ''Is the information correct? Please answer yes or no.'' (rc + 1)"
    using a unfolding processUserMessage_def Let_def idx
    by (simp add: forced_stages_def stage_summary_def)
next
  assume a: "\<not> checkEmergencySigns input \<and> rc < 3 \<and> length (trim input) < 2"
  then have r: "processUserMessage gen input history st Collect_name rc
      = stage_collect_name gen input history st rc"
    by (simp add: processUserMessage_def Let_def maxRetries_def)
  show "newState (processUserMessage gen input history st Collect_name rc) = st"
    using a unfolding r by (simp add: stage_collect_name_def turn_def Let_def)
  show "newStage (processUserMessage gen input history st Collect_name rc) = Collect_name"
    using a unfolding r by (simp add: stage_collect_name_def turn_def Let_def)
  show "newRetryCount (processUserMessage gen input history st Collect_name rc) = rc + 1"
    using a unfolding r by (simp add: stage_collect_name_def turn_def Let_def)
qed

theorem forced_advance_witness:
  "processUserMessage no_generator ''??'' [] Map.empty Severity 3
     = turn Map.empty Danger_breathing ''Are you having trouble breathing right now?'' 0
   \<and> processUserMessage no_generator ''maybe'' [] Map.empty Summary 5
     = turn Map.empty Summary ''Is the information correct? Please answer yes or no.'' 6
   \<and> newStage (processUserMessage no_generator ''x'' [] Map.empty Collect_name 2) = Collect_name
   \<and> newRetryCount (processUserMessage no_generator ''x'' [] Map.empty Collect_name 2) = 3"
proof -
  have h1: "\<not> checkEmergencySigns ''??''" by (simp add: chat_defs str_defs)
  have h2: "\<not> checkEmergencySigns ''maybe''" by (simp add: chat_defs str_defs)
  have h3: "parseYesNo ''maybe'' = None" by (simp add: chat_defs str_defs)
  have h4: "\<not> checkEmergencySigns ''x''" by (simp add: chat_defs str_defs)
  have h5: "length (trim ''x'') < 2" by (simp add: str_defs)
  have s4: "forced_stages ! 4 = Severity" by (simp add: forced_stages_def)
  have s5: "forced_stages ! Suc 4 = Danger_breathing" by (simp add: forced_stages_def)
  have q: "question (getNextQuestion Map.empty Danger_breathing)
           = ''Are you having trouble breathing right now?''"
    by (simp add: getNextQuestion_def)
  have l: "(4::nat) < length forced_stages - 1" by (simp add: forced_stages_def)
  show ?thesis
    using forced_advance [of 4 "''??''" 3 no_generator "[]" Map.empty]
      forced_advance [of 4 "''maybe''" 5 no_generator "[]" Map.empty]
      forced_advance [of 4 "''x''" 2 no_generator "[]" Map.empty]
      h1 h2 h3 h4 h5 l
    unfolding s4 s5 q by simp
qed

lemma stage_severity_cases:
  "stage_severity gen input history st rc =
     (case parseNumber input of
        Some n \<Rightarrow> if 0 \<le> n \<and> n \<le> 10
                  then turn (st(''severity'' \<mapsto> JNum n)) Danger_breathing
                         (respond gen input history (st(''severity'' \<mapsto> JNum n)) Danger_breathing) 0
                  else turn st Severity (respond gen input history st Severity) (rc + 1)
      | None \<Rightarrow> turn st Severity (respond gen input history st Severity) (rc + 1))"
  by (simp add: stage_severity_def Let_def split: option.splits)

lemma severity_turn_state:
  "newState (processUserMessage gen input history st Severity rc) = st
   \<or> (\<exists>n. parseNumber input = Some n \<and> 0 \<le> n \<and> n \<le> 10
          \<and> newState (processUserMessage gen input history st Severity rc) = st(''severity'' \<mapsto> JNum n))"
  by (simp add: processUserMessage_def Let_def escalate_def turn_def stage_severity_cases
        split: option.splits)

text \<open>
  Claim C10, as the code has it. With a retry count of 3 the forced advance runs before the
  severity is parsed: the input 11 leaves the severity unset, yet the turn moves on to the
  first danger check and the retry count is reset to 0 instead of being incremented.
\<close>

theorem severity_retry_not_incremented_counterexample:
  "parseNumber ''11'' = Some 11
   \<and> newState (processUserMessage no_generator ''11'' [] Map.empty Severity 3) ''severity'' = None
   \<and> newStage (processUserMessage no_generator ''11'' [] Map.empty Severity 3) = Danger_breathing
   \<and> newRetryCount (processUserMessage no_generator ''11'' [] Map.empty Severity 3) = 0"
  by (simp add: chat_defs str_defs)

text \<open>
  Claim C10, amended. At the severity stage a turn changes \<^verbatim>\<open>state.severity\<close> only when
  the first run of digits of the input parses to an integer \<open>n\<close> with \<open>0 \<le> n \<le> 10\<close>, and
  then to \<open>n\<close>: the stage never sets a severity outside 0 to 10. When the input has no
  emergency keyword and the retry count is below 3, such an input stores \<open>n\<close>, moves to the
  first danger check and resets the retry count; any other input, an out-of-range number
  such as 11 included, leaves the state unchanged, stays at the severity stage and
  increments the retry count.
\<close>

theorem severity_stage:
  "(newState (processUserMessage gen input history st Severity rc) ''severity'' \<noteq> st ''severity''
      \<longrightarrow> (\<exists>n. parseNumber input = Some n \<and> 0 \<le> n \<and> n \<le> 10
              \<and> newState (processUserMessage gen input history st Severity rc) ''severity'' = Some (JNum n)))
   \<and> (\<not> checkEmergencySigns input \<and> rc < 3 \<longrightarrow>
        (case parseNumber input of
           Some n \<Rightarrow>
             if 0 \<le> n \<and> n \<le> 10
             then newState (processUserMessage gen input history st Severity rc) = st(''severity'' \<mapsto> JNum n)
                \<and> newStage (processUserMessage gen input history st Severity rc) = Danger_breathing
                \<and> newRetryCount (processUserMessage gen input history st Severity rc) = 0
             else newState (processUserMessage gen input history st Severity rc) = st
                \<and> newStage (processUserMessage gen input history st Severity rc) = Severity
                \<and> newRetryCount (processUserMessage gen input history st Severity rc) = rc + 1
         | None \<Rightarrow>
             newState (processUserMessage gen input history st Severity rc) = st
           \<and> newStage (processUserMessage gen input history st Severity rc) = Severity
           \<and> newRetryCount (processUserMessage gen input history st Severity rc) = rc + 1))"
proof (intro conjI impI)
  assume "newState (processUserMessage gen input history st Severity rc) ''severity'' \<noteq> st ''severity''"
  then show "\<exists>n. parseNumber input = Some n \<and> 0 \<le> n \<and> n \<le> 10
      \<and> newState (processUserMessage gen input history st Severity rc) ''severity'' = Some (JNum n)"
    using severity_turn_state [of gen input history st rc] by auto
next
  assume a: "\<not> checkEmergencySigns input \<and> rc < 3"
  then have r: "processUserMessage gen input history st Severity rc
      = stage_severity gen input history st rc"
    by (simp add: processUserMessage_def Let_def maxRetries_def)
  show "case parseNumber input of
           Some n \<Rightarrow>
             if 0 \<le> n \<and> n \<le> 10
             then newState (processUserMessage gen input history st Severity rc) = st(''severity'' \<mapsto> JNum n)
                \<and> newStage (processUserMessage gen input history st Severity rc) = Danger_breathing
                \<and> newRetryCount (processUserMessage gen input history st Severity rc) = 0
             else newState (processUserMessage gen input history st Severity rc) = st
                \<and> newStage (processUserMessage gen input history st Severity rc) = Severity
                \<and> newRetryCount (processUserMessage gen input history st Severity rc) = rc + 1
         | None \<Rightarrow>
             newState (processUserMessage gen input history st Severity rc) = st
           \<and> newStage (processUserMessage gen input history st Severity rc) = Severity
           \<and> newRetryCount (processUserMessage gen input history st Severity rc) = rc + 1"
    unfolding r by (simp add: stage_severity_cases turn_def split: option.splits)
qed


theorem severity_stage_witness:
  "(\<exists>n. parseNumber ''about 7'' = Some n \<and> 0 \<le> n \<and> n \<le> 10
        \<and> newState (processUserMessage no_generator ''about 7'' [] Map.empty Severity 0) ''severity''
            = Some (JNum n))
   \<and> newState (processUserMessage no_generator ''about 7'' [] Map.empty Severity 0)
       = [''severity'' \<mapsto> JNum 7]
   \<and> newStage (processUserMessage no_generator ''about 7'' [] Map.empty Severity 0) = Danger_breathing
   \<and> newState (processUserMessage no_generator ''11'' [] Map.empty Severity 1) = Map.empty
   \<and> newStage (processUserMessage no_generator ''11'' [] Map.empty Severity 1) = Severity
   \<and> newRetryCount (processUserMessage no_generator ''11'' [] Map.empty Severity 1) = 2"
proof -
  have h1: "\<not> checkEmergencySigns ''about 7''" by (simp add: chat_defs str_defs)
  have h2: "\<not> checkEmergencySigns ''11''" by (simp add: chat_defs str_defs)
  have p1: "parseNumber ''about 7'' = Some 7" by (simp add: chat_defs str_defs)
  have p2: "parseNumber ''11'' = Some 11" by (simp add: chat_defs str_defs)
  have a: "\<not> checkEmergencySigns ''about 7'' \<and> (0::int) < 3" using h1 by simp
  have b: "\<not> checkEmergencySigns ''11'' \<and> (1::int) < 3" using h2 by simp
  have s1: "newState (processUserMessage no_generator ''about 7'' [] Map.empty Severity 0)
              = [''severity'' \<mapsto> JNum 7]
       \<and> newStage (processUserMessage no_generator ''about 7'' [] Map.empty Severity 0) = Danger_breathing"
    using severity_stage [of no_generator "''about 7''" "[]" Map.empty 0, THEN conjunct2] a
    by (simp only: p1 option.case) simp
  have s2: "newState (processUserMessage no_generator ''11'' [] Map.empty Severity 1) = Map.empty
       \<and> newStage (processUserMessage no_generator ''11'' [] Map.empty Severity 1) = Severity
       \<and> newRetryCount (processUserMessage no_generator ''11'' [] Map.empty Severity 1) = 2"
    using severity_stage [of no_generator "''11''" "[]" Map.empty 1, THEN conjunct2] b
    by (simp only: p2 option.case) simp
  have c: "newState (processUserMessage no_generator ''about 7'' [] Map.empty Severity 0) ''severity''
           \<noteq> Map.empty ''severity''"
    using s1 by simp
  have s0: "\<exists>n. parseNumber ''about 7'' = Some n \<and> 0 \<le> n \<and> n \<le> 10
        \<and> newState (processUserMessage no_generator ''about 7'' [] Map.empty Severity 0) ''severity''
            = Some (JNum n)"
    using severity_stage [of no_generator "''about 7''" "[]" Map.empty 0, THEN conjunct1] c
    by (rule mp)
  show ?thesis using s0 s1 s2 by (intro conjI) simp_all
qed

section \<open>Properties of the handoff and of the chat route\<close>

lemma generateHandoff_category:
  "rules_engine_category (generateHandoff narrate sid st msgs tr nt na)
     = category_of (riskBand (evaluateTriage (buildAnswersFromState st)))"
  by (simp add: generateHandoff_def createMinimalHandoff_def Let_def split: option.splits)

lemma jsget_map_add: "jsget (m ++ st) k = (case st k of None \<Rightarrow> jsget m k | Some v \<Rightarrow> v)"
  by (simp add: jsget_def map_add_def split: option.splits)

lemma jsget_None: "st k = None \<Longrightarrow> jsget st k = JUndefined"
  by (simp add: jsget_def)

lemma jsget_Some: "st k = Some v \<Longrightarrow> jsget st k = v"
  by (simp add: jsget_def)

lemma listed_reads:
  "jsget (answers_listed st) ''severity'' = js_or (jsget st ''severity'') (JNum 0)"
  "jsget (answers_listed st) ''age'' = js_or (jsget st ''age'') (JNum 0)"
  "jsget (answers_listed st) ''complaint'' = js_or (jsget st ''complaint'') (JStr [])"
  "jsget (answers_listed st) ''shortnessOfBreath''
     = js_or (js_or (jsget st ''shortnessOfBreath'') (jsget st ''troubleBreathing'')) (JBool False)"
  "jsget (answers_listed st) ''confusion'' = js_or (jsget st ''confusion'') (JBool False)"
  "jsget (answers_listed st) ''severeBleeding'' = js_or (jsget st ''severeBleeding'') (JBool False)"
  "jsget (answers_listed st) ''radiatingPain'' = js_or (jsget st ''radiatingPain'') (JBool False)"
  "jsget (answers_listed st) ''cardiacHistory'' = js_or (jsget st ''cardiacHistory'') (JBool False)"
  "jsget (answers_listed st) ''thunderclap'' = js_or (jsget st ''thunderclap'') (JBool False)"
  "jsget (answers_listed st) ''neckStiffness'' = js_or (jsget st ''neckStiffness'') (JBool False)"
  "jsget (answers_listed st) ''visualDisturbance'' = js_or (jsget st ''visualDisturbance'') (JBool False)"
  "jsget (answers_listed st) ''vomitingBlood'' = js_or (jsget st ''vomitingBlood'') (JBool False)"
  "jsget (answers_listed st) ''pregnancy'' = js_or (jsget st ''pregnancy'') (JBool False)"
  "jsget (answers_listed st) ''cyanosis'' = JUndefined"
  "jsget (answers_listed st) ''speakingDifficulty'' = JUndefined"
  "jsget (answers_listed st) ''rigidAbdomen'' = JUndefined"
  "jsget (answers_listed st) ''bleeding'' = JUndefined"
  by (simp_all add: answers_listed_def answers_false_defaults_def jsget_def)

lemma chat_reads:
  "jsget (chat_answers st) ''severity'' = js_or (jsget st ''severity'') (JNum 0)"
  "jsget (chat_answers st) ''age'' = js_or (jsget st ''age'') (JNum 0)"
  "jsget (chat_answers st) ''complaint'' = js_or (jsget st ''complaint'') (JStr [])"
  "jsget (chat_answers st) ''shortnessOfBreath'' = jsget st ''shortnessOfBreath''"
  "jsget (chat_answers st) ''bleeding'' = JUndefined"
  "jsget (chat_answers st) ''confusion'' = jsget st ''confusion''"
  "jsget (chat_answers st) ''severeBleeding'' = jsget st ''severeBleeding''"
  "jsget (chat_answers st) ''radiatingPain'' = jsget st ''radiatingPain''"
  "jsget (chat_answers st) ''cardiacHistory'' = jsget st ''cardiacHistory''"
  "jsget (chat_answers st) ''thunderclap'' = jsget st ''thunderclap''"
  "jsget (chat_answers st) ''neckStiffness'' = jsget st ''neckStiffness''"
  "jsget (chat_answers st) ''visualDisturbance'' = jsget st ''visualDisturbance''"
  "jsget (chat_answers st) ''vomitingBlood'' = jsget st ''vomitingBlood''"
  "jsget (chat_answers st) ''pregnancy'' = jsget st ''pregnancy''"
  "jsget (chat_answers st) ''cyanosis'' = jsget st ''cyanosis''"
  "jsget (chat_answers st) ''speakingDifficulty'' = jsget st ''speakingDifficulty''"
  "jsget (chat_answers st) ''rigidAbdomen'' = jsget st ''rigidAbdomen''"
  by (simp_all add: chat_answers_def chat_copied_fields_def jsget_def)

text \<open>What \<^verbatim>\<open>evaluateTriage\<close> reads from the answers of the handoff, in terms of the state.\<close>

lemma handoff_truthy:
  "truthy (jsget (buildAnswersFromState st) ''confusion'') = truthy (jsget st ''confusion'')"
  "truthy (jsget (buildAnswersFromState st) ''severeBleeding'') = truthy (jsget st ''severeBleeding'')"
  "truthy (jsget (buildAnswersFromState st) ''radiatingPain'') = truthy (jsget st ''radiatingPain'')"
  "truthy (jsget (buildAnswersFromState st) ''cardiacHistory'') = truthy (jsget st ''cardiacHistory'')"
  "truthy (jsget (buildAnswersFromState st) ''thunderclap'') = truthy (jsget st ''thunderclap'')"
  "truthy (jsget (buildAnswersFromState st) ''neckStiffness'') = truthy (jsget st ''neckStiffness'')"
  "truthy (jsget (buildAnswersFromState st) ''visualDisturbance'') = truthy (jsget st ''visualDisturbance'')"
  "truthy (jsget (buildAnswersFromState st) ''vomitingBlood'') = truthy (jsget st ''vomitingBlood'')"
  "truthy (jsget (buildAnswersFromState st) ''pregnancy'') = truthy (jsget st ''pregnancy'')"
  "truthy (jsget (buildAnswersFromState st) ''cyanosis'') = truthy (jsget st ''cyanosis'')"
  "truthy (jsget (buildAnswersFromState st) ''speakingDifficulty'') = truthy (jsget st ''speakingDifficulty'')"
  "truthy (jsget (buildAnswersFromState st) ''rigidAbdomen'') = truthy (jsget st ''rigidAbdomen'')"
  "truthy (jsget (buildAnswersFromState st) ''bleeding'') = truthy (jsget st ''bleeding'')"
  unfolding buildAnswersFromState_def jsget_map_add
  by (simp_all add: listed_reads js_or_def jsget_None jsget_Some split: option.splits)

lemma handoff_breath:
  "truthy (jsget (buildAnswersFromState st) ''shortnessOfBreath'')
     = (if st ''shortnessOfBreath'' = None then truthy (jsget st ''troubleBreathing'')
        else truthy (jsget st ''shortnessOfBreath''))"
  unfolding buildAnswersFromState_def jsget_map_add
  by (simp add: listed_reads js_or_def jsget_None jsget_Some split: option.splits)

lemma handoff_numbers:
  "js_ge (jsget (buildAnswersFromState st) ''severity'') (JNum 9) = js_ge (jsget st ''severity'') (JNum 9)"
  "js_ge (jsget (buildAnswersFromState st) ''severity'') (JNum 6) = js_ge (jsget st ''severity'') (JNum 6)"
  "js_gt (jsget (buildAnswersFromState st) ''severity'') (JNum 5) = js_gt (jsget st ''severity'') (JNum 5)"
  "js_gt (jsget (buildAnswersFromState st) ''age'') (JNum 50) = js_gt (jsget st ''age'') (JNum 50)"
  "js_gt (jsget (buildAnswersFromState st) ''age'') (JNum 75) = js_gt (jsget st ''age'') (JNum 75)"
  unfolding buildAnswersFromState_def jsget_map_add
  by (simp_all add: listed_reads js_or_def js_ge_def js_gt_def jsget_None jsget_Some
        split: option.splits)

lemma handoff_complaint:
  "complaint_lower (jsget (buildAnswersFromState st) ''complaint'') = complaint_lower (jsget st ''complaint'')"
  unfolding buildAnswersFromState_def jsget_map_add
  by (simp add: listed_reads js_or_def complaint_lower_def toLowerCase_def jsget_None jsget_Some
        split: option.splits)

text \<open>The same for the answers of \<^verbatim>\<open>buildTriageFromChat\<close>.\<close>

lemma chat_truthy:
  "truthy (jsget (chat_answers st) ''confusion'') = truthy (jsget st ''confusion'')"
  "truthy (jsget (chat_answers st) ''severeBleeding'') = truthy (jsget st ''severeBleeding'')"
  "truthy (jsget (chat_answers st) ''radiatingPain'') = truthy (jsget st ''radiatingPain'')"
  "truthy (jsget (chat_answers st) ''cardiacHistory'') = truthy (jsget st ''cardiacHistory'')"
  "truthy (jsget (chat_answers st) ''thunderclap'') = truthy (jsget st ''thunderclap'')"
  "truthy (jsget (chat_answers st) ''neckStiffness'') = truthy (jsget st ''neckStiffness'')"
  "truthy (jsget (chat_answers st) ''visualDisturbance'') = truthy (jsget st ''visualDisturbance'')"
  "truthy (jsget (chat_answers st) ''vomitingBlood'') = truthy (jsget st ''vomitingBlood'')"
  "truthy (jsget (chat_answers st) ''pregnancy'') = truthy (jsget st ''pregnancy'')"
  "truthy (jsget (chat_answers st) ''cyanosis'') = truthy (jsget st ''cyanosis'')"
  "truthy (jsget (chat_answers st) ''speakingDifficulty'') = truthy (jsget st ''speakingDifficulty'')"
  "truthy (jsget (chat_answers st) ''rigidAbdomen'') = truthy (jsget st ''rigidAbdomen'')"
  "truthy (jsget (chat_answers st) ''shortnessOfBreath'') = truthy (jsget st ''shortnessOfBreath'')"
  "truthy (jsget (chat_answers st) ''bleeding'') = False"
  by (simp_all add: chat_reads)

lemma chat_numbers:
  "js_ge (jsget (chat_answers st) ''severity'') (JNum 9) = js_ge (jsget st ''severity'') (JNum 9)"
  "js_ge (jsget (chat_answers st) ''severity'') (JNum 6) = js_ge (jsget st ''severity'') (JNum 6)"
  "js_gt (jsget (chat_answers st) ''severity'') (JNum 5) = js_gt (jsget st ''severity'') (JNum 5)"
  "js_gt (jsget (chat_answers st) ''age'') (JNum 50) = js_gt (jsget st ''age'') (JNum 50)"
  "js_gt (jsget (chat_answers st) ''age'') (JNum 75) = js_gt (jsget st ''age'') (JNum 75)"
  unfolding chat_reads
  by (cases "jsget st ''severity''"; cases "jsget st ''age''";
      simp add: js_or_def js_ge_def js_gt_def)+

lemma chat_complaint:
  "complaint_lower (jsget (chat_answers st) ''complaint'') = complaint_lower (jsget st ''complaint'')"
  unfolding chat_reads
  by (cases "jsget st ''complaint''") (simp_all add: js_or_def complaint_lower_def toLowerCase_def)

lemma collect_flags_blocks:
  "collect_flags a =
     headache_rules a (abdominal_pain_rules a (shortness_of_breath_rules a
       (chest_pain_rules a (global_red_flags a []))))"
  by (simp add: collect_flags_def)

lemmas block_defs = collect_flags_blocks global_red_flags_def chest_pain_rules_def
  shortness_of_breath_rules_def abdominal_pain_rules_def headache_rules_def












lemma same_flags:
  assumes "\<not> truthy (jsget st ''bleeding'')"
    and "st ''shortnessOfBreath'' \<noteq> None \<or> \<not> truthy (jsget st ''troubleBreathing'')"
  shows "collect_flags (buildAnswersFromState st) = collect_flags (chat_answers st)"
proof -
  have b: "truthy (jsget (buildAnswersFromState st) ''shortnessOfBreath'')
           = truthy (jsget st ''shortnessOfBreath'')"
    using assms(2) by (auto simp: handoff_breath jsget_None)
  have c: "truthy (jsget (buildAnswersFromState st) ''bleeding'') = False"
    using assms(1) by (simp add: handoff_truthy)
  show ?thesis
    unfolding block_defs push_each_def
    by (simp only: b c handoff_truthy(1-12) handoff_numbers handoff_complaint
          chat_truthy chat_numbers chat_complaint)
qed

lemma handoff_category_of_state:
  assumes "\<not> truthy (jsget st ''bleeding'')"
    and "st ''shortnessOfBreath'' \<noteq> None \<or> \<not> truthy (jsget st ''troubleBreathing'')"
  shows "rules_engine_category (generateHandoff narrate sid st msgs tr nt na)
         = category_of (riskBand (buildTriageFromChat st))"
proof -
  have "riskBand (evaluateTriage (buildAnswersFromState st)) = riskBand (evaluateTriage (chat_answers st))"
    unfolding riskBand_by_flags same_flags [OF assms]
    by (simp only: handoff_numbers chat_numbers)
  then show ?thesis
    by (simp add: generateHandoff_category buildTriageFromChat_def Let_def)
qed


lemma rag_followup_question_keeps:
  "newState (rag_followup_question env r) = newState r"
  "isEscalation (rag_followup_question env r) = isEscalation r"
  "isComplete (rag_followup_question env r) = isComplete r"
  by (simp_all add: rag_followup_question_def split: option.splits)

text \<open>What a completing turn of the route stores, in terms of the session it leaves.\<close>

lemma chat_message_outcome:
  assumes "chat_message env sid message session = Some out"
    and "out_submission out = Some sub"
    and "out_handoff out = Some handoff"
  shows "sub_riskBand sub =
           (if s_status (out_session out) = Escalated_status then Red
            else riskBand (buildTriageFromChat (s_state (out_session out))))
       \<and> rules_engine_category handoff =
           category_of (riskBand (evaluateTriage (buildAnswersFromState (s_state (out_session out)))))"
proof -
  define r where "r = rag_followup_question env
      (processUserMessage (c_generator env) message
         (s_messages session @ [\<lparr> role = User, content = message \<rparr>])
         (s_state session) (s_stage session) (s_retryCount session))"
  have ok: "sid \<noteq> 0 \<and> message \<noteq> [] \<and> s_status session = Active"
    using assms(1) by (auto simp: chat_message_def split: if_splits)
  have c: "isComplete r"
    using assms(1,2) ok unfolding chat_message_def Let_def r_def [symmetric]
    by (auto split: if_splits)
  show ?thesis
    using assms ok c unfolding chat_message_def Let_def r_def [symmetric]
    by (auto simp: generateHandoff_category)
qed





lemma name_short: "\<not> checkEmergencySigns ''x'' \<and> length (trim ''x'') < 2"
  by (simp add: chat_defs str_defs)

lemma collect_name_retry:
  assumes "rc < 3"
  shows "chat_message env 1 ''x''
           \<lparr> s_messages = ms, s_state = st, s_stage = Collect_name, s_status = Active, s_retryCount = rc \<rparr>
         = Some \<lparr> out_session =
               \<lparr> s_messages = ms @ [\<lparr> role = User, content = ''x'' \<rparr>,
                    \<lparr> role = Assistant, content = ''I need your full name to complete the assessment. Could you please provide your first and last name?'' \<rparr>],
                 s_state = st, s_stage = Collect_name, s_status = Active, s_retryCount = rc + 1 \<rparr>,
               out_submission = None, out_handoff = None \<rparr>"
  using assms name_short
  by (simp add: chat_message_def processUserMessage_def maxRetries_def stage_collect_name_def
        turn_def rag_followup_question_def Let_def)

lemma collect_name_forced:
  "chat_message env 1 ''x''
           \<lparr> s_messages = ms, s_state = st, s_stage = Collect_name, s_status = Active, s_retryCount = 3 \<rparr>
         = Some \<lparr> out_session =
               \<lparr> s_messages = ms @ [\<lparr> role = User, content = ''x'' \<rparr>,
                    \<lparr> role = Assistant, content = ''Can you tell me what's happening right now and what made you seek help today?'' \<rparr>],
                 s_state = st, s_stage = Opening, s_status = Active, s_retryCount = 0 \<rparr>,
               out_submission = None, out_handoff = None \<rparr>"
  using name_short
  by (simp add: chat_message_def processUserMessage_def maxRetries_def forced_stages_def
        turn_def rag_followup_question_def getNextQuestion_def Let_def)

lemma chest_hurts:
  "\<not> checkEmergencySigns ''my chest hurts'' \<and> parseComplaint ''my chest hurts'' = Some ''chest pain''
   \<and> trim ''my chest hurts'' = ''my chest hurts''"
  by (simp add: chat_defs str_defs)

lemma opening_again:
  "chat_message env 1 ''my chest hurts''
           \<lparr> s_messages = ms, s_state = st, s_stage = Opening, s_status = Active, s_retryCount = 0 \<rparr>
         = Some \<lparr> out_session =
               \<lparr> s_messages = ms @ [\<lparr> role = User, content = ''my chest hurts'' \<rparr>,
                    \<lparr> role = Assistant, content = ''Where in your body is the main problem?'' \<rparr>],
                 s_state = st(''complaint'' \<mapsto> JStr ''chest pain'',
                              ''openingDescription'' \<mapsto> JStr ''my chest hurts''),
                 s_stage = Localisation, s_status = Active, s_retryCount = 0 \<rparr>,
               out_submission = None, out_handoff = None \<rparr>"
  using chest_hurts
  by (simp add: chat_message_def processUserMessage_def maxRetries_def forced_stages_def
        stage_opening_def turn_def rag_followup_question_def getNextQuestion_def Let_def)

lemma name_retries_restart:
  "\<exists>s'. chat_messages env 1 [''x'', ''x'', ''x'', ''x'', ''my chest hurts'']
           \<lparr> s_messages = ms, s_state = st, s_stage = Collect_name, s_status = Active, s_retryCount = 0 \<rparr>
          = Some s'
       \<and> s_stage s' = Localisation
       \<and> s_state s' = st(''complaint'' \<mapsto> JStr ''chest pain'',
                          ''openingDescription'' \<mapsto> JStr ''my chest hurts'')"
  by (simp add: collect_name_retry collect_name_forced opening_again)

text \<open>
  Claim C9, evaluated on the code. \<^verbatim>\<open>collect_name\<close> is not in the stage array of the forced
  advance, so \<^verbatim>\<open>indexOf\<close> gives -1, the guard \<^verbatim>\<open>currentIndex < stages.length - 1\<close>
  holds and the stage becomes \<^verbatim>\<open>stages[0]\<close>. A session at name collection whose complaint
  is a headache, after three too short names and a fourth message, is back at the opening
  stage with its state kept; the next message overwrites the complaint, with no summary
  rejection and no reset in between: the severity of 4 is still there.
\<close>

theorem complaint_overwritten_after_name_retries:
  "s_state ex_name_session ''complaint'' = Some (JStr ''headache'')
   \<and> (\<exists>s'. chat_messages offline 1 [''x'', ''x'', ''x'', ''x'', ''my chest hurts''] ex_name_session = Some s'
         \<and> s_stage s' = Localisation
         \<and> s_state s' ''complaint'' = Some (JStr ''chest pain'')
         \<and> s_state s' ''severity'' = Some (JNum 4))"
  using name_retries_restart [of offline "[]" "[''complaint'' \<mapsto> JStr ''headache'', ''severity'' \<mapsto> JNum 4]"]
  by (auto simp: ex_name_session_def)

section \<open>What a session of the chat route can hold\<close>

lemma red_flag_question_field:
  "q \<in> set (RED_FLAG_QUESTIONS c) \<Longrightarrow> q_field q \<in> set red_flag_fields"
  by (auto simp: RED_FLAG_QUESTIONS_def red_flag_fields_def split: if_splits)

lemma find_red_flag_field:
  "List.find P (RED_FLAG_QUESTIONS c) = Some q \<Longrightarrow> q_field q \<in> set red_flag_fields"
  by (auto simp: find_Some_iff intro: red_flag_question_field nth_mem)

lemma in_chat_fields:
  "''complaint'' \<in> set chat_fields"
  "''openingDescription'' \<in> set chat_fields"
  "''location'' \<in> set chat_fields"
  "''onset'' \<in> set chat_fields"
  "''timeTrend'' \<in> set chat_fields"
  "''gettingWorse'' \<in> set chat_fields"
  "''severity'' \<in> set chat_fields"
  "''troubleBreathing'' \<in> set chat_fields"
  "''collapse'' \<in> set chat_fields"
  "''severePain'' \<in> set chat_fields"
  "''severeBleeding'' \<in> set chat_fields"
  "''confusion'' \<in> set chat_fields"
  "''ragQuestionsAsked'' \<in> set chat_fields"
  "''medicalHistory'' \<in> set chat_fields"
  "''medications'' \<in> set chat_fields"
  "''previousSurgery'' \<in> set chat_fields"
  "''canEatDrink'' \<in> set chat_fields"
  "''canMove'' \<in> set chat_fields"
  "''stoppingActivities'' \<in> set chat_fields"
  "''patientName'' \<in> set chat_fields"
  by (simp_all add: chat_fields_def)

lemma red_flag_in_chat_fields: "a \<in> set red_flag_fields \<Longrightarrow> a \<in> set chat_fields"
  by (simp add: chat_fields_def)

lemma startsWith_append: "startsWith (p @ s) p"
  by (induction p) auto

lemma outside_neq:
  assumes "outside k"
  shows "k \<noteq> ''complaint''"
    and "k \<noteq> ''openingDescription''"
    and "k \<noteq> ''location''"
    and "k \<noteq> ''onset''"
    and "k \<noteq> ''timeTrend''"
    and "k \<noteq> ''gettingWorse''"
    and "k \<noteq> ''severity''"
    and "k \<noteq> ''troubleBreathing''"
    and "k \<noteq> ''collapse''"
    and "k \<noteq> ''severePain''"
    and "k \<noteq> ''severeBleeding''"
    and "k \<noteq> ''confusion''"
    and "k \<noteq> ''ragQuestionsAsked''"
    and "k \<noteq> ''medicalHistory''"
    and "k \<noteq> ''medications''"
    and "k \<noteq> ''previousSurgery''"
    and "k \<noteq> ''canEatDrink''"
    and "k \<noteq> ''canMove''"
    and "k \<noteq> ''stoppingActivities''"
    and "k \<noteq> ''patientName''"
  using assms by (simp_all add: outside_def chat_fields_def)

lemma outside_field: "outside k \<Longrightarrow> a \<in> set chat_fields \<Longrightarrow> k \<noteq> a"
  by (auto simp: outside_def)

lemma outside_red_flag: "outside k \<Longrightarrow> a \<in> set red_flag_fields \<Longrightarrow> k \<noteq> a"
  by (auto simp: outside_def chat_fields_def)

lemma outside_rag: "outside k \<Longrightarrow> k \<noteq> ''ragAnswer'' @ s"
  using startsWith_append [of "''ragAnswer''" s] by (auto simp: outside_def)

lemmas outside_rag_cons = outside_rag [simplified]

lemmas frame_simps = outside_neq outside_rag_cons turn_def escalate_def Let_def

lemma frame_opening: "outside k \<Longrightarrow> newState (stage_opening input st rc) k = st k"
  by (simp add: stage_opening_def frame_simps split: option.splits)

lemma frame_localisation:
  "outside k \<Longrightarrow> newState (stage_localisation gen input h st rc) k = st k"
  by (simp add: stage_localisation_def frame_simps split: option.splits)

lemma frame_time_start: "outside k \<Longrightarrow> newState (stage_time_start gen input h st rc) k = st k"
  by (simp add: stage_time_start_def frame_simps)

lemma frame_time_trend: "outside k \<Longrightarrow> newState (stage_time_trend gen input h st rc) k = st k"
  by (simp add: stage_time_trend_def frame_simps)

lemma frame_severity: "outside k \<Longrightarrow> newState (stage_severity gen input h st rc) k = st k"
  by (simp add: stage_severity_def frame_simps split: option.splits)

lemma frame_danger:
  "outside k \<Longrightarrow> field \<in> set chat_fields
     \<Longrightarrow> newState (stage_danger field here nxt gen input h st rc) k = st k"
  by (auto simp: stage_danger_def frame_simps dest: outside_field split: option.splits)

lemma frame_danger_severe_pain:
  "outside k \<Longrightarrow> newState (stage_danger_severe_pain gen input h st rc) k = st k"
  by (simp add: stage_danger_severe_pain_def frame_simps split: option.splits)

lemma frame_danger_confusion:
  "outside k \<Longrightarrow> newState (stage_danger_confusion gen input h st rc) k = st k"
  by (simp add: stage_danger_confusion_def frame_simps split: option.splits)

lemma frame_red_flags:
  "outside k \<Longrightarrow> newState (stage_red_flags gen input h st rc) k = st k"
  by (auto simp: stage_red_flags_def frame_simps
        dest!: find_red_flag_field dest: outside_red_flag split: option.splits)

lemma frame_rag_followup:
  "outside k \<Longrightarrow> newState (stage_rag_followup gen input h st rc) k = st k"
  by (simp add: stage_rag_followup_def frame_simps)

lemma frame_context:
  "outside k \<Longrightarrow> field \<in> set chat_fields
     \<Longrightarrow> newState (stage_context field fallback nxt gen input h st) k = st k"
  by (auto simp: stage_context_def frame_simps dest: outside_field)

lemma frame_functional:
  "outside k \<Longrightarrow> field \<in> set chat_fields
     \<Longrightarrow> newState (stage_functional field nxt gen input h st) k = st k"
  by (auto simp: stage_functional_def frame_simps dest: outside_field split: option.splits)

lemma frame_functional_activities:
  "outside k \<Longrightarrow> newState (stage_functional_activities gen input h st) k = st k"
  by (simp add: stage_functional_activities_def frame_simps)

lemma frame_collect_name:
  "outside k \<Longrightarrow> newState (stage_collect_name gen input h st rc) k = st k"
  by (simp add: stage_collect_name_def frame_simps)

lemma frame_summary:
  "newState (stage_summary input st rc) = st \<or> newState (stage_summary input st rc) = Map.empty"
  by (simp add: stage_summary_def frame_simps split: option.splits bool.splits)

lemmas stage_frames = frame_opening frame_localisation frame_time_start frame_time_trend
  frame_severity frame_danger frame_danger_severe_pain frame_danger_confusion frame_red_flags
  frame_rag_followup frame_context frame_functional frame_functional_activities
  frame_collect_name

lemma processUserMessage_dispatch:
  assumes "\<not> checkEmergencySigns input"
    and "\<not> (rc \<ge> maxRetries \<and> indexOf forced_stages sg < int (length forced_stages) - 1)"
  shows "processUserMessage gen input h st sg rc =
    (case sg of
       Opening \<Rightarrow> stage_opening input st rc
     | Localisation \<Rightarrow> stage_localisation gen input h st rc
     | Time_start \<Rightarrow> stage_time_start gen input h st rc
     | Time_trend \<Rightarrow> stage_time_trend gen input h st rc
     | Severity \<Rightarrow> stage_severity gen input h st rc
     | Danger_breathing \<Rightarrow>
         stage_danger ''troubleBreathing'' Danger_breathing Danger_collapse gen input h st rc
     | Danger_collapse \<Rightarrow>
         stage_danger ''collapse'' Danger_collapse Danger_severe_pain gen input h st rc
     | Danger_severe_pain \<Rightarrow> stage_danger_severe_pain gen input h st rc
     | Danger_bleeding \<Rightarrow>
         stage_danger ''severeBleeding'' Danger_bleeding Danger_confusion gen input h st rc
     | Danger_confusion \<Rightarrow> stage_danger_confusion gen input h st rc
     | Red_flags \<Rightarrow> stage_red_flags gen input h st rc
     | Rag_followup \<Rightarrow> stage_rag_followup gen input h st rc
     | Context_conditions \<Rightarrow>
         stage_context ''medicalHistory'' ''None reported'' Context_medications gen input h st
     | Context_medications \<Rightarrow> stage_context ''medications'' ''None'' Context_surgery gen input h st
     | Context_surgery \<Rightarrow> stage_context ''previousSurgery'' ''None'' Functional_eat gen input h st
     | Functional_eat \<Rightarrow> stage_functional ''canEatDrink'' Functional_move gen input h st
     | Functional_move \<Rightarrow> stage_functional ''canMove'' Functional_activities gen input h st
     | Functional_activities \<Rightarrow> stage_functional_activities gen input h st
     | Collect_name \<Rightarrow> stage_collect_name gen input h st rc
     | Summary \<Rightarrow> stage_summary input st rc
     | _ \<Rightarrow>
         \<lparr> newState = st, newStage = sg,
           response = ''Thank you for completing the assessment.'' @ SAFETY_NET,
           isEscalation = False, isComplete = True, newRetryCount = 0 \<rparr>)"
  unfolding processUserMessage_def Let_def if_not_P [OF assms(1)] if_not_P [OF assms(2)]
  by (rule refl)

text \<open>
  A turn leaves every property alone that is neither a field of the interview nor a
  \<^verbatim>\<open>ragAnswer\<close> entry, unless it resets the whole state.
\<close>

lemma processUserMessage_frame:
  assumes "outside k"
  shows "newState (processUserMessage gen input h st sg rc) k = st k
       \<or> newState (processUserMessage gen input h st sg rc) = Map.empty"
proof (cases "checkEmergencySigns input
     \<or> (rc \<ge> maxRetries \<and> indexOf forced_stages sg < int (length forced_stages) - 1)")
  case True
  then show ?thesis
    by (auto simp: processUserMessage_def Let_def escalate_def turn_def)
next
  case False
  then have e: "\<not> checkEmergencySigns input"
    and nf: "\<not> (rc \<ge> maxRetries \<and> indexOf forced_stages sg < int (length forced_stages) - 1)"
    by auto
  show ?thesis
    unfolding processUserMessage_dispatch [OF e nf] using assms frame_summary [of input st rc]
    by (cases sg) (auto simp: stage_frames in_chat_fields)
qed

lemma red_flag_not_breathing: "a \<in> set red_flag_fields \<Longrightarrow> a \<noteq> ''troubleBreathing''"
  by (auto simp: red_flag_fields_def)

lemmas tb_simps = turn_def escalate_def Let_def

lemma tb_opening:
  "newState (stage_opening input st rc) ''troubleBreathing'' = st ''troubleBreathing''"
  by (simp add: stage_opening_def tb_simps split: option.splits)

lemma tb_localisation:
  "newState (stage_localisation gen input h st rc) ''troubleBreathing'' = st ''troubleBreathing''"
  by (simp add: stage_localisation_def tb_simps split: option.splits)

lemma tb_time_start:
  "newState (stage_time_start gen input h st rc) ''troubleBreathing'' = st ''troubleBreathing''"
  by (simp add: stage_time_start_def tb_simps)

lemma tb_time_trend:
  "newState (stage_time_trend gen input h st rc) ''troubleBreathing'' = st ''troubleBreathing''"
  by (simp add: stage_time_trend_def tb_simps)

lemma tb_severity:
  "newState (stage_severity gen input h st rc) ''troubleBreathing'' = st ''troubleBreathing''"
  by (simp add: stage_severity_def tb_simps split: option.splits)

lemma tb_danger_breathing:
  "isEscalation (stage_danger ''troubleBreathing'' here nxt gen input h st rc)
   \<or> newState (stage_danger ''troubleBreathing'' here nxt gen input h st rc) ''troubleBreathing''
       = Some (JBool False)
   \<or> newState (stage_danger ''troubleBreathing'' here nxt gen input h st rc) ''troubleBreathing''
       = st ''troubleBreathing''"
  by (simp add: stage_danger_def tb_simps split: option.splits)

lemma tb_danger:
  "field \<noteq> ''troubleBreathing''
     \<Longrightarrow> newState (stage_danger field here nxt gen input h st rc) ''troubleBreathing''
         = st ''troubleBreathing''"
  by (simp add: stage_danger_def tb_simps split: option.splits)

lemma tb_danger_severe_pain:
  "newState (stage_danger_severe_pain gen input h st rc) ''troubleBreathing'' = st ''troubleBreathing''"
  by (simp add: stage_danger_severe_pain_def tb_simps split: option.splits)

lemma tb_danger_confusion:
  "newState (stage_danger_confusion gen input h st rc) ''troubleBreathing'' = st ''troubleBreathing''"
  by (simp add: stage_danger_confusion_def tb_simps split: option.splits)

lemma tb_red_flags:
  "newState (stage_red_flags gen input h st rc) ''troubleBreathing'' = st ''troubleBreathing''"
  by (auto simp: stage_red_flags_def tb_simps
        dest!: find_red_flag_field dest: red_flag_not_breathing split: option.splits)

lemma tb_rag_followup:
  "newState (stage_rag_followup gen input h st rc) ''troubleBreathing'' = st ''troubleBreathing''"
  by (simp add: stage_rag_followup_def tb_simps)

lemma tb_context:
  "field \<noteq> ''troubleBreathing''
     \<Longrightarrow> newState (stage_context field fallback nxt gen input h st) ''troubleBreathing''
         = st ''troubleBreathing''"
  by (simp add: stage_context_def tb_simps)

lemma tb_functional:
  "field \<noteq> ''troubleBreathing''
     \<Longrightarrow> newState (stage_functional field nxt gen input h st) ''troubleBreathing''
         = st ''troubleBreathing''"
  by (simp add: stage_functional_def tb_simps split: option.splits)

lemma tb_functional_activities:
  "newState (stage_functional_activities gen input h st) ''troubleBreathing'' = st ''troubleBreathing''"
  by (simp add: stage_functional_activities_def tb_simps)

lemma tb_collect_name:
  "newState (stage_collect_name gen input h st rc) ''troubleBreathing'' = st ''troubleBreathing''"
  by (simp add: stage_collect_name_def tb_simps)

lemmas tb_stages = tb_opening tb_localisation tb_time_start tb_time_trend tb_severity tb_danger
  tb_danger_severe_pain tb_danger_confusion tb_red_flags tb_rag_followup tb_context
  tb_functional tb_functional_activities tb_collect_name

text \<open>
  \<^verbatim>\<open>troubleBreathing\<close> is written at one stage only, and a yes there escalates.
\<close>

lemma processUserMessage_breathing:
  "isEscalation (processUserMessage gen input h st sg rc)
   \<or> newState (processUserMessage gen input h st sg rc) = Map.empty
   \<or> newState (processUserMessage gen input h st sg rc) ''troubleBreathing'' = Some (JBool False)
   \<or> newState (processUserMessage gen input h st sg rc) ''troubleBreathing'' = st ''troubleBreathing''"
proof (cases "checkEmergencySigns input
     \<or> (rc \<ge> maxRetries \<and> indexOf forced_stages sg < int (length forced_stages) - 1)")
  case True
  then show ?thesis
    by (auto simp: processUserMessage_def Let_def escalate_def turn_def)
next
  case False
  then have e: "\<not> checkEmergencySigns input"
    and nf: "\<not> (rc \<ge> maxRetries \<and> indexOf forced_stages sg < int (length forced_stages) - 1)"
    by auto
  show ?thesis
    unfolding processUserMessage_dispatch [OF e nf]
    using frame_summary [of input st rc]
      tb_danger_breathing [of Danger_breathing Danger_collapse gen input h st rc]
    by (cases sg) (auto simp: tb_stages)
qed

lemma outside_examples: "outside ''bleeding''" "outside ''shortnessOfBreath''"
  by (simp_all add: outside_def chat_fields_def red_flag_fields_def)

lemma route_inv_fresh: "route_inv fresh_session"
  by (simp add: route_inv_def fresh_session_def)

lemma chat_message_session:
  assumes "chat_message env sid message s = Some out"
  shows "s_status s = Active
    \<and> s_state (out_session out)
        = newState (processUserMessage (c_generator env) message
            (s_messages s @ [\<lparr> role = User, content = message \<rparr>])
            (s_state s) (s_stage s) (s_retryCount s))
    \<and> (s_status (out_session out) = Escalated_status) =
        isEscalation (processUserMessage (c_generator env) message
            (s_messages s @ [\<lparr> role = User, content = message \<rparr>])
            (s_state s) (s_stage s) (s_retryCount s))"
  using assms
  by (auto simp: chat_message_def Let_def rag_followup_question_keeps split: if_splits)

lemma route_inv_step:
  assumes "route_inv s" and "chat_message env sid message s = Some out"
  shows "route_inv (out_session out)"
proof -
  let ?r = "processUserMessage (c_generator env) message
            (s_messages s @ [\<lparr> role = User, content = message \<rparr>])
            (s_state s) (s_stage s) (s_retryCount s)"
  have c: "s_status s = Active" "s_state (out_session out) = newState ?r"
    "(s_status (out_session out) = Escalated_status) = isEscalation ?r"
    using chat_message_session [OF assms(2)] by auto
  have b: "newState ?r ''bleeding'' = s_state s ''bleeding'' \<or> newState ?r = Map.empty"
    by (rule processUserMessage_frame) (rule outside_examples)
  have sb: "newState ?r ''shortnessOfBreath'' = s_state s ''shortnessOfBreath'' \<or> newState ?r = Map.empty"
    by (rule processUserMessage_frame) (rule outside_examples)
  have tb: "isEscalation ?r \<or> newState ?r = Map.empty
      \<or> newState ?r ''troubleBreathing'' = Some (JBool False)
      \<or> newState ?r ''troubleBreathing'' = s_state s ''troubleBreathing''"
    by (rule processUserMessage_breathing)
  show ?thesis
    using assms(1) c b sb tb unfolding route_inv_def by auto
qed

lemma route_inv_messages:
  "route_inv s \<Longrightarrow> chat_messages env sid messages s = Some s' \<Longrightarrow> route_inv s'"
proof (induction messages arbitrary: s)
  case Nil
  then show ?case by simp
next
  case (Cons m ms)
  then obtain out where o: "chat_message env sid m s = Some out"
      and r: "chat_messages env sid ms (out_session out) = Some s'"
    by (auto split: option.splits)
  have "route_inv (out_session out)" using Cons.prems(1) o by (rule route_inv_step)
  then show ?case using r by (rule Cons.IH)
qed


text \<open>
  A session conducted through the chat route from its start meets the conditions under which
  the handoff and the submission agree: when it completes without escalation, the category
  of the handoff is the stored band.
\<close>

lemma route_session_band_matches:
  assumes "chat_messages env sid messages fresh_session = Some s"
    and "chat_message env sid message s = Some out"
    and "out_submission out = Some sub"
    and "out_handoff out = Some handoff"
    and "s_status (out_session out) \<noteq> Escalated_status"
  shows "rules_engine_category handoff = category_of (sub_riskBand sub)"
proof -
  have "route_inv s" using route_inv_fresh assms(1) by (rule route_inv_messages)
  then have i: "route_inv (out_session out)" using assms(2) by (rule route_inv_step)
  have b: "\<not> truthy (jsget (s_state (out_session out)) ''bleeding'')"
    using i by (simp add: route_inv_def jsget_def)
  have t: "s_state (out_session out) ''shortnessOfBreath'' \<noteq> None
         \<or> \<not> truthy (jsget (s_state (out_session out)) ''troubleBreathing'')"
    using i assms(5) by (auto simp: route_inv_def jsget_def)
  have "rules_engine_category
          (generateHandoff (c_narrator env) sid (s_state (out_session out)) [] [] [] [])
        = category_of (riskBand (buildTriageFromChat (s_state (out_session out))))"
    using b t by (rule handoff_category_of_state)
  then show ?thesis
    using chat_message_outcome [OF assms(2,3,4)] assms(5)
    by (simp add: generateHandoff_category)
qed

end
